theory Spec2Isabelle
  imports Complex_Main
begin

section \<open>Planet.tsx: Keplerian propagation of one body\<close>

text \<open>
  The component \<^verbatim>\<open>Planet\<close> of \<^verbatim>\<open>src/components/Planet.tsx\<close> keeps the drifting
  orbital elements of one body in a mutable cell (\<^verbatim>\<open>keplerElementsRef\<close>), memoises the
  orbit regime and the orbit polyline, and on every frame (\<^verbatim>\<open>useFrame\<close>) integrates the
  element rates, solves Kepler's equation, places the body and computes its opacity.

  JavaScript numbers are modelled as reals (finite doubles, idealised). A not-a-number
  result is written out where the source can produce one: \<^verbatim>\<open>solveKepler\<close> returns
  \<open>None\<close> for NaN, \<^verbatim>\<open>Math.sqrt\<close> of a negative number is \<open>None\<close>, and a position
  computed from a NaN true anomaly is the vector \<open>Vector3_NaN\<close>. The mean motion
  divides by the orbital period, so it and the mean anomaly built from it are values of
  the type \<open>number\<close>, which has the infinities and NaN; the solver is called with
  such a value and is taken to answer with a finite number or with NaN.

  \<^verbatim>\<open>solveKepler\<close> lives in \<^verbatim>\<open>utils/kepler\<close>, outside this file; it is a parameter
  of every definition that calls it. The operations of the scene library on the
  orientation of the body mesh are parameters too (\<open>three_ops\<close>). Materials, rings, the
  label and its font size are not modelled, and the props of a mounted component are
  fixed (the effect that resets the cell when they change is not modelled).
\<close>

subsection \<open>Numbers and vectors\<close>

type_synonym vec3 = "real \<times> real \<times> real"

datatype vector3 = Vector3 real real real | Vector3_NaN

definition js_sqrt :: "real \<Rightarrow> real option" where
  \<comment> \<open>\<^verbatim>\<open>Math.sqrt\<close>: NaN below zero.\<close>
  "js_sqrt x = (if x < 0 then None else Some (sqrt x))"

datatype number = Finite real | PosInfinity | NegInfinity | NaN

fun number_times :: "number \<Rightarrow> real \<Rightarrow> number" where
  \<comment> \<open>A possibly infinite number times a finite one: infinity times zero is NaN.\<close>
  "number_times (Finite x) t = Finite (x * t)"
| "number_times PosInfinity t =
     (if 0 < t then PosInfinity else if t < 0 then NegInfinity else NaN)"
| "number_times NegInfinity t =
     (if 0 < t then NegInfinity else if t < 0 then PosInfinity else NaN)"
| "number_times NaN t = NaN"

fun number_plus :: "real \<Rightarrow> number \<Rightarrow> number" where
  \<comment> \<open>A finite number plus a possibly infinite one.\<close>
  "number_plus m (Finite x) = Finite (m + x)"
| "number_plus m PosInfinity = PosInfinity"
| "number_plus m NegInfinity = NegInfinity"
| "number_plus m NaN = NaN"

fun number_negate :: "number \<Rightarrow> number" where
  "number_negate (Finite x) = Finite (- x)"
| "number_negate PosInfinity = NegInfinity"
| "number_negate NegInfinity = PosInfinity"
| "number_negate NaN = NaN"

definition atan2 :: "real \<Rightarrow> real \<Rightarrow> real" where
  \<comment> \<open>\<^verbatim>\<open>Math.atan2(y, x)\<close> on finite arguments, zero taken as \<open>+0\<close>.\<close>
  "atan2 y x =
     (if 0 < x then arctan (y / x)
      else if x < 0 then (if 0 \<le> y then arctan (y / x) + pi else arctan (y / x) - pi)
      else if 0 < y then pi / 2
      else if y < 0 then - (pi / 2)
      else 0)"

definition clamp :: "real \<Rightarrow> real \<Rightarrow> real \<Rightarrow> real" where
  \<comment> \<open>\<^verbatim>\<open>THREE.MathUtils.clamp(value, min, max)\<close>.\<close>
  "clamp v lo hi = max lo (min hi v)"

definition deg2rad :: "real \<Rightarrow> real" where
  "deg2rad deg = (deg * pi) / 180"

definition distanceTo :: "vec3 \<Rightarrow> vector3 \<Rightarrow> real option" where
  \<comment> \<open>\<^verbatim>\<open>cameraPosition.distanceTo(planetPos)\<close>; NaN when the body position is NaN.\<close>
  "distanceTo c p =
     (case p of
        Vector3_NaN \<Rightarrow> None
      | Vector3 x y z \<Rightarrow>
          (case c of (cx, cy, cz) \<Rightarrow>
             Some (sqrt ((cx - x) * (cx - x) + (cy - y) * (cy - y) + (cz - z) * (cz - z)))))"

subsection \<open>Data\<close>

datatype orbit_type = Elliptical | Parabolic | Hyperbolic

text \<open>
  The six elements are fields both of the component's props (\<^verbatim>\<open>planetData\<close>) and of
  the cell \<^verbatim>\<open>keplerElementsRef.current\<close>; the two records extend a common one, so the
  field names are the source's in both.
\<close>

record orbital_elements =
  semiMajorAxis :: real
  eccentricity :: real
  inclination :: real
  longitudeOfAscendingNode :: real
  argumentOfPeriapsis :: real
  meanAnomalyAtEpoch :: real

record kepler_elements = orbital_elements +
  opacity :: real

record planet_data = orbital_elements +
  semiMajorAxisRate :: real
  eccentricityRate :: real
  inclinationRate :: real
  longitudeOfAscendingNodeRate :: real
  argumentOfPeriapsisRate :: real
  meanAnomalyAtEpochRate :: real
  orbitalPeriod :: real
  rotationSpeed :: real
  rotationAxis :: vec3

record rad_elements =
  iRad :: real
  ORad :: real
  wRad :: real
  M0Rad :: real

text \<open>What \<^verbatim>\<open>useSpace()\<close> and the refs give the component on a frame.\<close>

record space_ctx =
  speedFactor :: real
  AU :: real
  cameraType :: string
  thisFocusedBody :: bool
  planetGroupMounted :: bool
  planetMounted :: bool
  groupMounted :: bool

text \<open>What the render loop passes to the \<^verbatim>\<open>useFrame\<close> callback.\<close>

record frame_input =
  clockElapsed :: real
  delta :: real
  cameraPosition :: vec3

text \<open>
  The scene library's operations on the orientation \<open>'o\<close> of the body mesh:
  \<open>rotatedRotationAxis axis (i, O, w)\<close> is the normalised rotation axis turned by the
  quaternion of \<^verbatim>\<open>Euler(iRad, ORad, wRad, 'XYZ')\<close>.
\<close>

record 'o three_ops =
  rotatedRotationAxis :: "vec3 \<Rightarrow> vec3 \<Rightarrow> vec3"
  rotateOnAxis :: "vec3 \<Rightarrow> real \<Rightarrow> 'o \<Rightarrow> 'o"
  lookAt :: "vec3 \<Rightarrow> 'o \<Rightarrow> 'o"

text \<open>
  The mutable and memoised state of one mounted component: the cell
  \<^verbatim>\<open>keplerElementsRef.current\<close>, the memos \<^verbatim>\<open>updatedElementsRad\<close> and
  \<^verbatim>\<open>orbitType\<close> (dependency lists \<^verbatim>\<open>[deg2rad]\<close> and \<^verbatim>\<open>[]\<close>: computed at the first
  render only), the position of \<^verbatim>\<open>planetGroupRef\<close>, the orientation of
  \<^verbatim>\<open>planetRef\<close> and the flag \<^verbatim>\<open>groupRef.current.visible\<close>.
\<close>

record 'o planet_state =
  keplerElementsRef :: kepler_elements
  updatedElementsRad :: rad_elements
  orbitType :: orbit_type
  planetGroupPosition :: vector3
  planetOrientation :: 'o
  groupVisible :: bool

subsection \<open>Memos computed at the first render\<close>

definition initialElements :: "planet_data \<Rightarrow> kepler_elements" where
  "initialElements props =
     \<lparr> semiMajorAxis = semiMajorAxis props,
       eccentricity = eccentricity props,
       inclination = inclination props,
       longitudeOfAscendingNode = longitudeOfAscendingNode props,
       argumentOfPeriapsis = argumentOfPeriapsis props,
       meanAnomalyAtEpoch = meanAnomalyAtEpoch props,
       opacity = 0 \<rparr>"

definition elementsRad :: "kepler_elements \<Rightarrow> rad_elements" where
  "elementsRad elements =
     \<lparr> iRad = deg2rad (inclination elements),
       ORad = deg2rad (longitudeOfAscendingNode elements),
       wRad = deg2rad (argumentOfPeriapsis elements),
       M0Rad = deg2rad (meanAnomalyAtEpoch elements) \<rparr>"

definition orbitTypeOf :: "real \<Rightarrow> orbit_type" where
  "orbitTypeOf e = (if e < 1 then Elliptical else if e = 1 then Parabolic else Hyperbolic)"

definition n_meanMotion :: "planet_data \<Rightarrow> number" where
  \<comment> \<open>The memo \<^verbatim>\<open>n\<close>. A period of zero (taken as \<open>+0\<close>) divides the positive
      numerator by zero: the result is \<open>Infinity\<close>.\<close>
  "n_meanMotion props =
     (if orbitalPeriod props * 86400 = 0 then PosInfinity
      else Finite ((2 * pi) / (orbitalPeriod props * 86400)))"

definition mount :: "planet_data \<Rightarrow> 'o \<Rightarrow> 'o planet_state" where
  \<comment> \<open>The first render: the group sits at the origin and is visible.\<close>
  "mount props o0 =
     \<lparr> keplerElementsRef = initialElements props,
       updatedElementsRad = elementsRad (initialElements props),
       orbitType = orbitTypeOf (eccentricity (initialElements props)),
       planetGroupPosition = Vector3 0 0 0,
       planetOrientation = o0,
       groupVisible = True \<rparr>"

subsection \<open>From eccentric anomaly to inertial position\<close>

definition trueAnomaly :: "orbit_type \<Rightarrow> real \<Rightarrow> real \<Rightarrow> real option" where
  "trueAnomaly ot e E =
     (if ot = Elliptical \<or> ot = Parabolic then
        (case (js_sqrt (1 + e), js_sqrt (1 - e)) of
           (Some p, Some q) \<Rightarrow> Some (2 * atan2 (p * sin (E / 2)) (q * cos (E / 2)))
         | _ \<Rightarrow> None)
      else
        (case (js_sqrt (e + 1), js_sqrt (e - 1)) of
           (Some p, Some q) \<Rightarrow> Some (2 * atan2 (p * sinh (E / 2)) (q * cosh (E / 2)))
         | _ \<Rightarrow> None))"

definition radius :: "orbit_type \<Rightarrow> real \<Rightarrow> real \<Rightarrow> real \<Rightarrow> real" where
  "radius ot a e E =
     (if ot = Elliptical \<or> ot = Parabolic then a * (1 - e * cos E)
      else a * (e * cosh E - 1))"

definition inertialPosition :: "rad_elements \<Rightarrow> real \<Rightarrow> real option \<Rightarrow> real \<Rightarrow> vector3" where
  "inertialPosition rad au nu r =
     (case nu of
        None \<Rightarrow> Vector3_NaN
      | Some v \<Rightarrow>
          (let xOrbital = r * cos v;
               yOrbital = r * sin v;
               cosO = cos (ORad rad);
               sinO = sin (ORad rad);
               cosi = cos (iRad rad);
               sini = sin (iRad rad);
               cosw = cos (wRad rad);
               sinw = sin (wRad rad);
               x = (cosO * cosw - sinO * sinw * cosi) * xOrbital +
                   (- cosO * sinw - sinO * cosw * cosi) * yOrbital;
               y = (sinO * cosw + cosO * sinw * cosi) * xOrbital +
                   (- sinO * sinw + cosO * cosw * cosi) * yOrbital;
               z = sinw * sini * xOrbital + cosw * sini * yOrbital
           in Vector3 (x * au) (y * au) (z * au)))"

subsection \<open>The orbit polyline (\<^verbatim>\<open>orbitPoints\<close>)\<close>

definition segments :: nat where
  "segments = 128"

definition maxIdx :: "orbit_type \<Rightarrow> nat" where
  "maxIdx ot = (if ot = Hyperbolic then 64 else segments)"

definition sweepM :: "orbit_type \<Rightarrow> nat \<Rightarrow> real" where
  \<comment> \<open>The mean anomaly of sample \<open>idx\<close>.\<close>
  "sweepM ot idx =
     (if ot = Hyperbolic then (real idx - real segments / 2) * (1 / 10)
      else (2 * pi * real idx) / real segments)"

primrec orbitLoop ::
  "(number \<Rightarrow> real \<Rightarrow> real option) \<Rightarrow> real \<Rightarrow> 'o planet_state \<Rightarrow> nat list \<Rightarrow> vector3 list" where
  "orbitLoop solveKepler au s [] = []"
| "orbitLoop solveKepler au s (idx # rest) =
     (let e = eccentricity (keplerElementsRef s);
          M = sweepM (orbitType s) idx
      in case solveKepler (Finite M) e of
           None \<Rightarrow> orbitLoop solveKepler au s rest
         | Some E \<Rightarrow>
             inertialPosition (updatedElementsRad s) au
               (trueAnomaly (orbitType s) e E)
               (radius (orbitType s) (semiMajorAxis (keplerElementsRef s)) e E)
             # orbitLoop solveKepler au s rest)"

definition orbitPoints ::
  "(number \<Rightarrow> real \<Rightarrow> real option) \<Rightarrow> real \<Rightarrow> 'o planet_state \<Rightarrow> vector3 list" where
  "orbitPoints solveKepler au s = orbitLoop solveKepler au s [0 ..< Suc (maxIdx (orbitType s))]"

subsection \<open>One frame (\<^verbatim>\<open>useFrame\<close>)\<close>

definition integrateElements :: "planet_data \<Rightarrow> real \<Rightarrow> kepler_elements \<Rightarrow> kepler_elements" where
  "integrateElements props deltaCySimulation cur =
     \<lparr> semiMajorAxis = semiMajorAxis cur + semiMajorAxisRate props * deltaCySimulation,
       eccentricity = eccentricity cur + eccentricityRate props * deltaCySimulation,
       inclination = inclination cur + inclinationRate props * deltaCySimulation,
       longitudeOfAscendingNode =
         longitudeOfAscendingNode cur + longitudeOfAscendingNodeRate props * deltaCySimulation,
       argumentOfPeriapsis =
         argumentOfPeriapsis cur + argumentOfPeriapsisRate props * deltaCySimulation,
       meanAnomalyAtEpoch =
         meanAnomalyAtEpoch cur + meanAnomalyAtEpochRate props * deltaCySimulation,
       opacity = opacity cur \<rparr>"

definition meanAnomaly :: "orbit_type \<Rightarrow> real \<Rightarrow> number \<Rightarrow> real \<Rightarrow> number" where
  \<comment> \<open>The argument \<^verbatim>\<open>M\<close> handed to the solver.\<close>
  "meanAnomaly ot m0 n elapsedTime =
     (let M = number_plus m0 (number_times n elapsedTime)
      in if ot = Hyperbolic then (if elapsedTime > 0 then M else number_negate M) else M)"

definition newOpacity :: "real \<Rightarrow> real \<Rightarrow> real option \<Rightarrow> real" where
  \<comment> \<open>A NaN distance fails the comparison and leaves 1; equal thresholds divide a
      positive number by zero, and the clamp of minus infinity is 0.\<close>
  "newOpacity a au distance =
     (let minDistance = a * au * 4;
          maxDistance = a * au * 10
      in case distance of
           None \<Rightarrow> 1
         | Some d \<Rightarrow>
             if d > minDistance then
               (if maxDistance - minDistance = 0 then 0
                else clamp (1 - (d - minDistance) / (maxDistance - minDistance)) 0 1)
             else 1)"

definition placeBody ::
  "'o three_ops \<Rightarrow> planet_data \<Rightarrow> space_ctx \<Rightarrow> frame_input \<Rightarrow> rad_elements \<Rightarrow> vector3 \<Rightarrow>
   'o planet_state \<Rightarrow> 'o planet_state" where
  \<comment> \<open>The body of \<^verbatim>\<open>if (planetGroupRef.current)\<close>.\<close>
  "placeBody three props ctx inp rad pos s =
     (let s1 = s\<lparr>planetGroupPosition := pos\<rparr>;
          axis = rotatedRotationAxis three (rotationAxis props) (iRad rad, ORad rad, wRad rad);
          s2 = (if planetMounted ctx then
                  (let turned = rotateOnAxis three axis (rotationSpeed props * delta inp)
                                  (planetOrientation s1)
                   in s1\<lparr>planetOrientation :=
                          (if \<not> thisFocusedBody ctx then lookAt three (cameraPosition inp) turned
                           else turned)\<rparr>)
                else s1);
          distance = distanceTo (cameraPosition inp) pos;
          opa = newOpacity (semiMajorAxis props) (AU ctx) distance;
          s3 = s2\<lparr>keplerElementsRef := (keplerElementsRef s2)\<lparr>opacity := opa\<rparr>\<rparr>
      in if groupMounted ctx then s3\<lparr>groupVisible := (opa > 5 / 100)\<rparr> else s3)"

definition useFrame ::
  "(number \<Rightarrow> real \<Rightarrow> real option) \<Rightarrow> 'o three_ops \<Rightarrow> planet_data \<Rightarrow> space_ctx \<Rightarrow>
   frame_input \<Rightarrow> 'o planet_state \<Rightarrow> 'o planet_state" where
  "useFrame solveKepler three props ctx inp s =
     (if AU ctx = 0 then s
      else
        (let elapsedTime = clockElapsed inp * speedFactor ctx;
             deltaCySimulation = (delta inp * speedFactor ctx) / 86400;
             s1 = s\<lparr>keplerElementsRef :=
                      integrateElements props deltaCySimulation (keplerElementsRef s)\<rparr>;
             updatedRad = elementsRad (keplerElementsRef s1);
             M = meanAnomaly (orbitType s1) (M0Rad updatedRad) (n_meanMotion props) elapsedTime;
             e = eccentricity (keplerElementsRef s1)
         in case solveKepler M e of
              None \<Rightarrow> s1
            | Some E \<Rightarrow>
                (let nu = trueAnomaly (orbitType s1) e E;
                     r = radius (orbitType s1) (semiMajorAxis (keplerElementsRef s1)) e E;
                     pos = inertialPosition updatedRad (AU ctx) nu r
                 in if planetGroupMounted ctx then placeBody three props ctx inp updatedRad pos s1
                    else s1)))"

definition handleBodyClick :: "space_ctx \<Rightarrow> 'o planet_state \<Rightarrow> bool" where
  \<comment> \<open>Whether the click calls \<^verbatim>\<open>setFocusedBody\<close>.\<close>
  "handleBodyClick ctx s =
     (if cameraType ctx = ''ship'' then False
      else opacity (keplerElementsRef s) > 5 / 100)"

fun frames ::
  "(number \<Rightarrow> real \<Rightarrow> real option) \<Rightarrow> 'o three_ops \<Rightarrow> planet_data \<Rightarrow>
   (space_ctx \<times> frame_input) list \<Rightarrow> 'o planet_state \<Rightarrow> 'o planet_state" where
  \<comment> \<open>The render loop: one \<^verbatim>\<open>useFrame\<close> call per frame, in order.\<close>
  "frames solveKepler three props [] s = s"
| "frames solveKepler three props ((ctx, inp) # rest) s =
     frames solveKepler three props rest (useFrame solveKepler three props ctx inp s)"

subsection \<open>What one frame hands to the solver\<close>

definition solverCall ::
  "planet_data \<Rightarrow> space_ctx \<Rightarrow> frame_input \<Rightarrow> 'o planet_state \<Rightarrow> number \<times> real" where
  \<comment> \<open>The arguments \<^verbatim>\<open>(M, eccentricity)\<close> of the call in \<^verbatim>\<open>useFrame\<close>: both are
      read from the cell after the rates have been integrated.\<close>
  "solverCall props ctx inp s =
     (let cur = integrateElements props ((delta inp * speedFactor ctx) / 86400)
                  (keplerElementsRef s)
      in (meanAnomaly (orbitType s) (deg2rad (meanAnomalyAtEpoch cur)) (n_meanMotion props)
            (clockElapsed inp * speedFactor ctx),
          eccentricity cur))"

definition computesOpacity ::
  "(number \<Rightarrow> real \<Rightarrow> real option) \<Rightarrow> planet_data \<Rightarrow> space_ctx \<Rightarrow> frame_input \<Rightarrow>
   'o planet_state \<Rightarrow> bool" where
  \<comment> \<open>The frame reaches the assignment to \<^verbatim>\<open>keplerElementsRef.current.opacity\<close>.\<close>
  "computesOpacity solveKepler props ctx inp s =
     (AU ctx \<noteq> 0 \<and> planetGroupMounted ctx \<and>
      solveKepler (fst (solverCall props ctx inp s)) (snd (solverCall props ctx inp s)) \<noteq> None)"

definition propagatedAnomaly ::
  "(number \<Rightarrow> real \<Rightarrow> real option) \<Rightarrow> orbit_type \<Rightarrow> real \<Rightarrow> number \<Rightarrow> real \<Rightarrow> real \<Rightarrow>
   real option" where
  \<comment> \<open>The true anomaly a frame computes at simulated time \<open>elapsedTime\<close>, for epoch
      anomaly \<open>m0\<close> (radians), mean motion \<open>n\<close> and eccentricity \<open>e\<close>; \<open>None\<close> is NaN
      or a skipped frame.\<close>
  "propagatedAnomaly solveKepler ot m0 n e elapsedTime =
     (case solveKepler (meanAnomaly ot m0 n elapsedTime) e of
        None \<Rightarrow> None
      | Some E \<Rightarrow> trueAnomaly ot e E)"

subsection \<open>Concrete inputs for the closed examples\<close>

definition solveKepler_nan :: "number \<Rightarrow> real \<Rightarrow> real option" where
  \<comment> \<open>A solver whose every answer is NaN.\<close>
  "solveKepler_nan M e = None"

fun solveKepler_circular :: "number \<Rightarrow> real \<Rightarrow> real option" where
  \<comment> \<open>A solver that answers \<open>E = M\<close>, the root of Kepler's equation at eccentricity 0,
      and NaN for a mean anomaly that is not finite.\<close>
  "solveKepler_circular (Finite M) e = Some M"
| "solveKepler_circular M e = None"

definition three_unit :: "unit three_ops" where
  "three_unit =
     \<lparr> rotatedRotationAxis = (\<lambda>axis angles. axis),
       rotateOnAxis = (\<lambda>axis angle ori. ori),
       lookAt = (\<lambda>target ori. ori) \<rparr>"

definition props_example :: planet_data where
  "props_example =
     \<lparr> semiMajorAxis = 1, eccentricity = 9 / 10, inclination = 0,
       longitudeOfAscendingNode = 0, argumentOfPeriapsis = 0, meanAnomalyAtEpoch = 0,
       semiMajorAxisRate = 0, eccentricityRate = 1, inclinationRate = 0,
       longitudeOfAscendingNodeRate = 0, argumentOfPeriapsisRate = 0,
       meanAnomalyAtEpochRate = 0, orbitalPeriod = 365, rotationSpeed = 1,
       rotationAxis = (0, 1, 0) \<rparr>"

definition ctx_example :: space_ctx where
  "ctx_example =
     \<lparr> speedFactor = 86400, AU = 100, cameraType = ''orbit'', thisFocusedBody = False,
       planetGroupMounted = True, planetMounted = True, groupMounted = True \<rparr>"

definition inp_example :: frame_input where
  "inp_example = \<lparr> clockElapsed = 1, delta = 1 / 5, cameraPosition = (0, 0, 500) \<rparr>"

definition props_circular :: planet_data where
  "props_circular =
     \<lparr> semiMajorAxis = 1, eccentricity = 0, inclination = 0,
       longitudeOfAscendingNode = 0, argumentOfPeriapsis = 0, meanAnomalyAtEpoch = 0,
       semiMajorAxisRate = 0, eccentricityRate = 0, inclinationRate = 0,
       longitudeOfAscendingNodeRate = 0, argumentOfPeriapsisRate = 0,
       meanAnomalyAtEpochRate = 0, orbitalPeriod = 365, rotationSpeed = 1,
       rotationAxis = (0, 1, 0) \<rparr>"

definition ctx_paused :: space_ctx where
  "ctx_paused = ctx_example\<lparr>speedFactor := 0\<rparr>"

definition ctx_slower :: space_ctx where
  "ctx_slower = ctx_example\<lparr>speedFactor := 43200\<rparr>"

definition inp_half_period :: frame_input where
  "inp_half_period = \<lparr> clockElapsed = 365 / 2, delta = 1 / 60, cameraPosition = (0, 0, 500) \<rparr>"

definition inp_at_origin :: frame_input where
  "inp_at_origin = \<lparr> clockElapsed = 1, delta = 1 / 60, cameraPosition = (0, 0, 0) \<rparr>"

definition inp_far_away :: frame_input where
  "inp_far_away = \<lparr> clockElapsed = 1, delta = 1 / 60, cameraPosition = (0, 0, 1000) \<rparr>"

definition props_growing :: planet_data where
  "props_growing = props_circular\<lparr>semiMajorAxisRate := 1\<rparr>"

definition props_no_period :: planet_data where
  "props_no_period = props_circular\<lparr>orbitalPeriod := 0\<rparr>"

definition inp_full_period :: frame_input where
  "inp_full_period = \<lparr> clockElapsed = 365, delta = 1, cameraPosition = (0, 0, 500) \<rparr>"

definition inp_full_period_long :: frame_input where
  "inp_full_period_long = \<lparr> clockElapsed = 365, delta = 2, cameraPosition = (0, 0, 500) \<rparr>"

definition inp_two_periods :: frame_input where
  "inp_two_periods = \<lparr> clockElapsed = 730, delta = 2, cameraPosition = (0, 0, 500) \<rparr>"

definition props_decaying :: planet_data where
  "props_decaying = props_example\<lparr>eccentricity := 11 / 10, eccentricityRate := - 1\<rparr>"

section \<open>Properties\<close>

subsection \<open>The regime memo\<close>

lemma useFrame_orbitType:
  "orbitType (useFrame solveKepler three props ctx inp s) = orbitType s"
  by (simp add: useFrame_def placeBody_def Let_def split: option.split)

lemma frames_orbitType:
  "orbitType (frames solveKepler three props fs s) = orbitType s"
  by (induction fs arbitrary: s) (auto simp: useFrame_orbitType)

lemma mount_orbitType: "orbitType (mount props o0) = orbitTypeOf (eccentricity props)"
  by (simp add: mount_def initialElements_def)

lemma created_hyperbolic:
  "1 < eccentricity props \<Longrightarrow>
   orbitType (frames solveKepler three props fs (mount props o0)) = Hyperbolic"
  by (simp add: frames_orbitType mount_orbitType orbitTypeOf_def)

text \<open>
  C1, as the claim states it, fails. The body of the example has eccentricity 0.9 and an
  eccentricity rate of 1; one frame of 0.2 s at speed factor 86400 integrates it to 1.1.
  The regime that the frame and the path sampler read is still the one memoised at the
  first render (elliptical), while the current eccentricity classifies as hyperbolic;
  this is so whether the solver answers or not.
\<close>

theorem orbitType_stale_counterexample:
  "orbitType (useFrame solveKepler_circular three_unit props_example ctx_example inp_example
       (mount props_example ())) = Elliptical
   \<and> orbitTypeOf (eccentricity (keplerElementsRef
        (useFrame solveKepler_circular three_unit props_example ctx_example inp_example
           (mount props_example ())))) = Hyperbolic
   \<and> orbitType (useFrame solveKepler_nan three_unit props_example ctx_example inp_example
       (mount props_example ())) = Elliptical
   \<and> orbitTypeOf (eccentricity (keplerElementsRef
        (useFrame solveKepler_nan three_unit props_example ctx_example inp_example
           (mount props_example ())))) = Hyperbolic"
  by (simp add: useFrame_def placeBody_def Let_def mount_def initialElements_def
      integrateElements_def orbitTypeOf_def props_example_def ctx_example_def inp_example_def
      solveKepler_nan_def split: option.split)

text \<open>
  C1, amended: the regime used by propagation and by path sampling is the
  classification of the eccentricity the body was created with; it is computed once, at
  the first render, and no sequence of frames (whatever the rates, the speed factors and
  the solver) changes it.
\<close>

theorem orbitType_fixed_at_mount:
  "orbitType (frames solveKepler three props fs (mount props o0)) =
     orbitTypeOf (eccentricity props)"
  by (simp add: frames_orbitType mount_def initialElements_def)

subsection \<open>A frame whose solver call fails\<close>

text \<open>
  C2, as the claim states it, fails: the rates are integrated into the cell before the
  solver is called, so a frame whose solver call yields NaN still advances the elements.
  In the example the stored eccentricity goes from 0.9 to 1.1 on such a frame.
\<close>

theorem failed_frame_drifts_counterexample:
  "solveKepler_nan
     (fst (solverCall props_example ctx_example inp_example (mount props_example ())))
     (snd (solverCall props_example ctx_example inp_example (mount props_example ()))) = None
   \<and> eccentricity (keplerElementsRef (mount props_example ())) = 9 / 10
   \<and> eccentricity (keplerElementsRef
        (useFrame solveKepler_nan three_unit props_example ctx_example inp_example
           (mount props_example ()))) = 11 / 10"
  by (simp add: useFrame_def Let_def mount_def initialElements_def
      integrateElements_def props_example_def ctx_example_def inp_example_def
      solveKepler_nan_def)

text \<open>
  C2, amended: on a frame whose solver call fails, the six elements are advanced by
  their rates and nothing else changes: the position, the orientation, the opacity and
  the visibility flag are the previous ones, so no NaN reaches them.
\<close>

theorem failed_frame_keeps_outputs:
  assumes "AU ctx \<noteq> 0"
    and "solveKepler (fst (solverCall props ctx inp s)) (snd (solverCall props ctx inp s)) = None"
  shows "useFrame solveKepler three props ctx inp s =
           s\<lparr>keplerElementsRef :=
               integrateElements props ((delta inp * speedFactor ctx) / 86400)
                 (keplerElementsRef s)\<rparr>
         \<and> planetGroupPosition (useFrame solveKepler three props ctx inp s) =
             planetGroupPosition s
         \<and> planetOrientation (useFrame solveKepler three props ctx inp s) =
             planetOrientation s
         \<and> opacity (keplerElementsRef (useFrame solveKepler three props ctx inp s)) =
             opacity (keplerElementsRef s)
         \<and> groupVisible (useFrame solveKepler three props ctx inp s) = groupVisible s"
  using assms
  by (simp add: useFrame_def solverCall_def Let_def elementsRad_def integrateElements_def)

theorem failed_frame_keeps_outputs_witness:
  "AU ctx_example \<noteq> 0
   \<and> solveKepler_nan
        (fst (solverCall props_example ctx_example inp_example (mount props_example ())))
        (snd (solverCall props_example ctx_example inp_example (mount props_example ()))) = None
   \<and> planetGroupPosition (useFrame solveKepler_nan three_unit props_example ctx_example
        inp_example (mount props_example ())) = planetGroupPosition (mount props_example ())
   \<and> planetOrientation (useFrame solveKepler_nan three_unit props_example ctx_example
        inp_example (mount props_example ())) = planetOrientation (mount props_example ())
   \<and> opacity (keplerElementsRef (useFrame solveKepler_nan three_unit props_example ctx_example
        inp_example (mount props_example ()))) = opacity (keplerElementsRef (mount props_example ()))
   \<and> groupVisible (useFrame solveKepler_nan three_unit props_example ctx_example inp_example
        (mount props_example ())) = groupVisible (mount props_example ())"
proof -
  have h1: "AU ctx_example \<noteq> 0"
    by (simp add: ctx_example_def)
  have h2: "solveKepler_nan
      (fst (solverCall props_example ctx_example inp_example (mount props_example ())))
      (snd (solverCall props_example ctx_example inp_example (mount props_example ()))) = None"
    by (simp add: solveKepler_nan_def)
  show ?thesis
    using h1 h2
      failed_frame_keeps_outputs [where solveKepler = solveKepler_nan and three = three_unit
        and props = props_example and ctx = ctx_example and inp = inp_example
        and s = "mount props_example ()"]
    by blast
qed

subsection \<open>The sign of the eccentricity\<close>

text \<open>
  C8, as the claim states it, fails: the integration adds \<open>rate * elapsed\<close> with no
  lower bound. With eccentricity 0.9 and an eccentricity rate of -5, the frame of the
  example stores -0.1.
\<close>

theorem eccentricity_negative_counterexample:
  "0 \<le> eccentricity (keplerElementsRef (mount (props_example\<lparr>eccentricityRate := - 5\<rparr>) ()))
   \<and> eccentricity (keplerElementsRef
        (useFrame solveKepler_circular three_unit (props_example\<lparr>eccentricityRate := - 5\<rparr>)
           ctx_example inp_example (mount (props_example\<lparr>eccentricityRate := - 5\<rparr>) ()))) < 0"
  by (simp add: useFrame_def placeBody_def Let_def mount_def initialElements_def
      integrateElements_def props_example_def ctx_example_def inp_example_def
      split: option.split)

text \<open>
  C8, amended: after a frame the stored eccentricity is the previous one plus
  \<open>eccentricityRate * (delta * speedFactor / 86400)\<close>, unclamped; it is non-negative
  whenever the previous eccentricity is non-negative and
  \<open>eccentricityRate * (delta * speedFactor)\<close> is non-negative.
\<close>

theorem eccentricity_after_frame:
  "(AU ctx \<noteq> 0 \<longrightarrow>
      eccentricity (keplerElementsRef (useFrame solveKepler three props ctx inp s)) =
        eccentricity (keplerElementsRef s)
          + eccentricityRate props * ((delta inp * speedFactor ctx) / 86400))
   \<and> (0 \<le> eccentricity (keplerElementsRef s)
        \<and> 0 \<le> eccentricityRate props * (delta inp * speedFactor ctx)
      \<longrightarrow> 0 \<le> eccentricity (keplerElementsRef (useFrame solveKepler three props ctx inp s)))"
  by (simp add: useFrame_def placeBody_def Let_def integrateElements_def split: option.split)

theorem eccentricity_after_frame_witness:
  "AU ctx_example \<noteq> 0
   \<and> 0 \<le> eccentricity (keplerElementsRef (mount props_example ()))
   \<and> 0 \<le> eccentricityRate props_example * (delta inp_example * speedFactor ctx_example)
   \<and> eccentricity (keplerElementsRef
        (useFrame solveKepler_circular three_unit props_example ctx_example inp_example
           (mount props_example ()))) = 11 / 10
   \<and> 0 \<le> eccentricity (keplerElementsRef
        (useFrame solveKepler_circular three_unit props_example ctx_example inp_example
           (mount props_example ())))"
  using eccentricity_after_frame [where solveKepler = solveKepler_circular
      and three = three_unit and props = props_example and ctx = ctx_example
      and inp = inp_example and s = "mount props_example ()"]
  by (simp add: mount_def initialElements_def props_example_def ctx_example_def inp_example_def)

subsection \<open>Opacity as a function of the observer distance\<close>

lemma placeBody_opacity:
  "opacity (keplerElementsRef (placeBody three props ctx inp rad pos s)) =
     newOpacity (semiMajorAxis props) (AU ctx) (distanceTo (cameraPosition inp) pos)"
  by (simp add: placeBody_def Let_def)

lemma newOpacity_near:
  assumes "0 < a" "0 < au" "d \<le> a * au * 4"
  shows "newOpacity a au (Some d) = 1"
  using assms by (simp add: newOpacity_def Let_def)

lemma newOpacity_far:
  assumes "0 < a" "0 < au" "a * au * 10 \<le> d"
  shows "newOpacity a au (Some d) = 0"
proof -
  have pos: "0 < a * au" using assms by simp
  have gt: "a * au * 4 < d" using pos assms(3) by linarith
  have ne: "a * au * 10 - a * au * 4 \<noteq> 0" using pos by linarith
  have "(d - a * au * 4) / (a * au * 10 - a * au * 4) \<ge> 1"
    using pos assms(3) by (simp add: field_simps)
  then show ?thesis using gt ne by (simp add: newOpacity_def Let_def clamp_def)
qed

lemma newOpacity_range: "0 \<le> newOpacity a au dd \<and> newOpacity a au dd \<le> 1"
  by (simp add: newOpacity_def Let_def clamp_def split: option.split)

lemma newOpacity_mono:
  assumes "0 < a" "0 < au" "d \<le> d'"
  shows "newOpacity a au (Some d') \<le> newOpacity a au (Some d)"
proof -
  have pos: "0 < a * au" using assms by simp
  have ne: "a * au * 10 - a * au * 4 \<noteq> 0" and w: "0 < a * au * 10 - a * au * 4"
    using pos by linarith+
  show ?thesis
  proof (cases "d > a * au * 4")
    case False
    then have "newOpacity a au (Some d) = 1" by (simp add: newOpacity_def Let_def)
    then show ?thesis using newOpacity_range [of a au "Some d'"] by simp
  next
    case True
    then have d': "d' > a * au * 4" using assms(3) by linarith
    have "(d - a * au * 4) / (a * au * 10 - a * au * 4)
            \<le> (d' - a * au * 4) / (a * au * 10 - a * au * 4)"
      using w assms(3) by (simp add: divide_right_mono)
    then show ?thesis using True d' ne
      by (simp add: newOpacity_def Let_def clamp_def min_def max_def)
  qed
qed

text \<open>
  C3: for a body with \<open>semiMajorAxis > 0\<close> (and the positive scale factor \<open>AU\<close>),
  whatever the body position and the observer position, the opacity that a frame stores
  is exactly 1 at a distance of at most \<open>minDistance = semiMajorAxis * AU * 4\<close>,
  exactly 0 at a distance of at least \<open>maxDistance = semiMajorAxis * AU * 10\<close>,
  lies in \<open>[0, 1]\<close> (also for a NaN position), and does not increase when the
  distance grows.
\<close>

theorem opacity_attenuation:
  assumes "0 < semiMajorAxis props" and "0 < AU ctx"
    and "distanceTo (cameraPosition inp) (Vector3 x y z) = Some d"
    and "distanceTo (cameraPosition inp') (Vector3 x' y' z') = Some d'"
  shows "(d \<le> semiMajorAxis props * AU ctx * 4 \<longrightarrow>
            opacity (keplerElementsRef (placeBody three props ctx inp rad (Vector3 x y z) s)) = 1)
       \<and> (semiMajorAxis props * AU ctx * 10 \<le> d \<longrightarrow>
            opacity (keplerElementsRef (placeBody three props ctx inp rad (Vector3 x y z) s)) = 0)
       \<and> 0 \<le> opacity (keplerElementsRef (placeBody three props ctx inp rad pos s))
       \<and> opacity (keplerElementsRef (placeBody three props ctx inp rad pos s)) \<le> 1
       \<and> (d \<le> d' \<longrightarrow>
            opacity (keplerElementsRef (placeBody three props ctx inp' rad' (Vector3 x' y' z') s'))
              \<le> opacity (keplerElementsRef (placeBody three props ctx inp rad (Vector3 x y z) s)))"
  using assms newOpacity_near [of "semiMajorAxis props" "AU ctx" d]
    newOpacity_far [of "semiMajorAxis props" "AU ctx" d]
    newOpacity_range [of "semiMajorAxis props" "AU ctx" "distanceTo (cameraPosition inp) pos"]
    newOpacity_mono [of "semiMajorAxis props" "AU ctx" d d']
  by (simp add: placeBody_opacity)

theorem opacity_attenuation_witness:
  "0 < semiMajorAxis props_example \<and> 0 < AU ctx_example
   \<and> distanceTo (cameraPosition inp_at_origin) (Vector3 0 0 0) = Some 0
   \<and> distanceTo (cameraPosition inp_far_away) (Vector3 0 0 0) = Some 1000
   \<and> (0::real) \<le> semiMajorAxis props_example * AU ctx_example * 4
   \<and> semiMajorAxis props_example * AU ctx_example * 10 \<le> (1000::real)
   \<and> opacity (keplerElementsRef (placeBody three_unit props_example ctx_example inp_at_origin
        (elementsRad (initialElements props_example)) (Vector3 0 0 0) (mount props_example ()))) = 1
   \<and> opacity (keplerElementsRef (placeBody three_unit props_example ctx_example inp_far_away
        (elementsRad (initialElements props_example)) (Vector3 0 0 0) (mount props_example ()))) = 0"
proof -
  have a: "0 < semiMajorAxis props_example" and au: "0 < AU ctx_example"
    by (simp_all add: props_example_def ctx_example_def)
  have d0: "distanceTo (cameraPosition inp_at_origin) (Vector3 0 0 0) = Some 0"
    by (simp add: distanceTo_def inp_at_origin_def)
  have "sqrt 1000000 = 1000"
    by (rule real_sqrt_unique) simp_all
  then have d1: "distanceTo (cameraPosition inp_far_away) (Vector3 0 0 0) = Some 1000"
    by (simp add: distanceTo_def inp_far_away_def)
  have near: "(0::real) \<le> semiMajorAxis props_example * AU ctx_example * 4"
    and far: "semiMajorAxis props_example * AU ctx_example * 10 \<le> (1000::real)"
    by (simp_all add: props_example_def ctx_example_def)
  show ?thesis
    using a au d0 d1 near far
      opacity_attenuation [OF a au d0 d1, of three_unit
        "elementsRad (initialElements props_example)" "mount props_example ()"]
      opacity_attenuation [OF a au d1 d0, of three_unit
        "elementsRad (initialElements props_example)" "mount props_example ()"]
    by blast
qed

subsection \<open>The frame as a function of the solver call\<close>

lemma useFrame_unfold:
  "useFrame solveKepler three props ctx inp s =
     (if AU ctx = 0 then s
      else
        (let s1 = s\<lparr>keplerElementsRef :=
                     integrateElements props ((delta inp * speedFactor ctx) / 86400)
                       (keplerElementsRef s)\<rparr>
         in case solveKepler (fst (solverCall props ctx inp s)) (snd (solverCall props ctx inp s)) of
              None \<Rightarrow> s1
            | Some E \<Rightarrow>
                if planetGroupMounted ctx then
                  placeBody three props ctx inp (elementsRad (keplerElementsRef s1))
                    (inertialPosition (elementsRad (keplerElementsRef s1)) (AU ctx)
                       (trueAnomaly (orbitType s) (snd (solverCall props ctx inp s)) E)
                       (radius (orbitType s) (semiMajorAxis (keplerElementsRef s1))
                          (snd (solverCall props ctx inp s)) E))
                    s1
                else s1))"
  by (simp add: useFrame_def solverCall_def Let_def elementsRad_def split: option.split)

lemma placeBody_visible:
  "groupMounted ctx \<Longrightarrow>
   groupVisible (placeBody three props ctx inp rad pos s) =
     (opacity (keplerElementsRef (placeBody three props ctx inp rad pos s)) > 5 / 100)"
  by (simp add: placeBody_def Let_def)

text \<open>
  C10: a click focuses the body only when the stored opacity exceeds 0.05, and the
  scene group is visible exactly when it does: every frame that computes an opacity sets
  both from the same value, and a frame that computes none keeps both. At an opacity of
  at most 0.05 the body is hidden and a click does nothing. (The group of the body is
  nested in the scene group, so the latter is mounted whenever the former is.)
\<close>

theorem visible_and_selectable:
  assumes nest: "planetGroupMounted ctx \<longrightarrow> groupMounted ctx"
    and pre: "computesOpacity solveKepler props ctx inp s
              \<or> groupVisible s = (opacity (keplerElementsRef s) > 5 / 100)"
  shows "groupVisible (useFrame solveKepler three props ctx inp s) =
           (opacity (keplerElementsRef (useFrame solveKepler three props ctx inp s)) > 5 / 100)
       \<and> (handleBodyClick ctx' (useFrame solveKepler three props ctx inp s) \<longrightarrow>
            opacity (keplerElementsRef (useFrame solveKepler three props ctx inp s)) > 5 / 100)
       \<and> (opacity (keplerElementsRef (useFrame solveKepler three props ctx inp s)) \<le> 5 / 100 \<longrightarrow>
            \<not> groupVisible (useFrame solveKepler three props ctx inp s)
            \<and> \<not> handleBodyClick ctx' (useFrame solveKepler three props ctx inp s))"
proof -
  let ?s' = "useFrame solveKepler three props ctx inp s"
  have vis: "groupVisible ?s' = (opacity (keplerElementsRef ?s') > 5 / 100)"
  proof (cases "computesOpacity solveKepler props ctx inp s")
    case True
    then show ?thesis using nest
      by (auto simp: useFrame_unfold computesOpacity_def Let_def placeBody_visible)
  next
    case False
    then have keep: "groupVisible ?s' = groupVisible s
        \<and> opacity (keplerElementsRef ?s') = opacity (keplerElementsRef s)"
      by (auto simp: useFrame_unfold computesOpacity_def Let_def integrateElements_def
          split: option.split)
    then show ?thesis using pre False by simp
  qed
  have click: "handleBodyClick ctx' ?s' \<longrightarrow> opacity (keplerElementsRef ?s') > 5 / 100"
    by (simp add: handleBodyClick_def)
  show ?thesis using vis click by auto
qed

theorem visible_and_selectable_witness:
  "planetGroupMounted ctx_example \<and> groupMounted ctx_example
   \<and> computesOpacity solveKepler_circular props_circular ctx_example inp_example
        (mount props_circular ())
   \<and> groupVisible (useFrame solveKepler_circular three_unit props_circular ctx_example
        inp_example (mount props_circular ())) =
       (opacity (keplerElementsRef (useFrame solveKepler_circular three_unit props_circular
          ctx_example inp_example (mount props_circular ()))) > 5 / 100)"
proof -
  have nest: "planetGroupMounted ctx_example \<longrightarrow> groupMounted ctx_example"
    by (simp add: ctx_example_def)
  have comp: "computesOpacity solveKepler_circular props_circular ctx_example inp_example
      (mount props_circular ())"
    by (simp add: computesOpacity_def solverCall_def Let_def meanAnomaly_def n_meanMotion_def
        props_circular_def ctx_example_def)
  have both: "planetGroupMounted ctx_example \<and> groupMounted ctx_example"
    by (simp add: ctx_example_def)
  show ?thesis
    using both nest comp
      visible_and_selectable [where solveKepler = solveKepler_circular and three = three_unit
        and props = props_circular and ctx = ctx_example and inp = inp_example
        and s = "mount props_circular ()" and ctx' = ctx_example]
    by blast
qed

subsection \<open>Speed factor zero\<close>

lemma integrateElements_zero: "integrateElements props 0 cur = cur"
  by (simp add: integrateElements_def)

lemma placeBody_position:
  "planetGroupPosition (placeBody three props ctx inp rad pos s) = pos"
  by (simp add: placeBody_def Let_def)

lemma placeBody_elements:
  "keplerElementsRef (placeBody three props ctx inp rad pos s) =
     (keplerElementsRef s)\<lparr>opacity :=
        newOpacity (semiMajorAxis props) (AU ctx) (distanceTo (cameraPosition inp) pos)\<rparr>"
  by (simp add: placeBody_def Let_def)

lemma elementsRad_opacity [simp]: "elementsRad (cur\<lparr>opacity := v\<rparr>) = elementsRad cur"
  by (simp add: elementsRad_def)

lemma solverCall_paused:
  "speedFactor ctx = 0 \<Longrightarrow>
   solverCall props ctx inp s =
     (meanAnomaly (orbitType s) (deg2rad (meanAnomalyAtEpoch (keplerElementsRef s)))
        (n_meanMotion props) 0,
      eccentricity (keplerElementsRef s))"
  by (simp add: solverCall_def integrateElements_zero Let_def)

lemma useFrame_paused_elements:
  "speedFactor ctx = 0 \<Longrightarrow>
   keplerElementsRef (useFrame solveKepler three props ctx inp s) =
     (keplerElementsRef s)
       \<lparr>opacity := opacity (keplerElementsRef (useFrame solveKepler three props ctx inp s))\<rparr>"
  by (simp add: useFrame_unfold Let_def placeBody_elements integrateElements_zero
      split: option.split)

lemma useFrame_paused_position:
  assumes "speedFactor ctx = 0"
  shows "planetGroupPosition (useFrame solveKepler three props ctx inp s) =
     (if AU ctx = 0 \<or> \<not> planetGroupMounted ctx then planetGroupPosition s
      else case solveKepler (meanAnomaly (orbitType s)
                  (deg2rad (meanAnomalyAtEpoch (keplerElementsRef s))) (n_meanMotion props) 0)
                (eccentricity (keplerElementsRef s)) of
             None \<Rightarrow> planetGroupPosition s
           | Some E \<Rightarrow>
               inertialPosition (elementsRad (keplerElementsRef s)) (AU ctx)
                 (trueAnomaly (orbitType s) (eccentricity (keplerElementsRef s)) E)
                 (radius (orbitType s) (semiMajorAxis (keplerElementsRef s))
                    (eccentricity (keplerElementsRef s)) E))"
  using assms
  by (simp add: useFrame_unfold solverCall_paused integrateElements_zero Let_def
      placeBody_position split: option.split)

text \<open>
  C4: with the speed multiplier at 0, a frame changes none of the six elements, and a
  second frame, at any clock value, after any frame time and with any camera, leaves the
  body where the first one put it: nothing drifts and the anomaly does not advance.
\<close>

theorem paused_frames_identical:
  assumes "speedFactor ctx1 = 0" and "speedFactor ctx2 = 0"
    and "AU ctx2 = AU ctx1" and "planetGroupMounted ctx2 = planetGroupMounted ctx1"
  shows "keplerElementsRef (useFrame solveKepler three props ctx1 inp1 s) =
           (keplerElementsRef s)\<lparr>opacity :=
              opacity (keplerElementsRef (useFrame solveKepler three props ctx1 inp1 s))\<rparr>
       \<and> keplerElementsRef (useFrame solveKepler three props ctx2 inp2
              (useFrame solveKepler three props ctx1 inp1 s)) =
           (keplerElementsRef s)\<lparr>opacity :=
              opacity (keplerElementsRef (useFrame solveKepler three props ctx2 inp2
                (useFrame solveKepler three props ctx1 inp1 s)))\<rparr>
       \<and> planetGroupPosition (useFrame solveKepler three props ctx2 inp2
              (useFrame solveKepler three props ctx1 inp1 s)) =
           planetGroupPosition (useFrame solveKepler three props ctx1 inp1 s)"
proof -
  let ?s1 = "useFrame solveKepler three props ctx1 inp1 s"
  let ?s2 = "useFrame solveKepler three props ctx2 inp2 ?s1"
  have e1: "keplerElementsRef ?s1 =
      (keplerElementsRef s)\<lparr>opacity := opacity (keplerElementsRef ?s1)\<rparr>"
    using assms(1) by (rule useFrame_paused_elements)
  have e2: "keplerElementsRef ?s2 =
      (keplerElementsRef ?s1)\<lparr>opacity := opacity (keplerElementsRef ?s2)\<rparr>"
    using assms(2) by (rule useFrame_paused_elements)
  have e2': "keplerElementsRef ?s2 =
      (keplerElementsRef s)\<lparr>opacity := opacity (keplerElementsRef ?s2)\<rparr>"
    by (subst e2, subst e1) simp
  have same: "semiMajorAxis (keplerElementsRef ?s1) = semiMajorAxis (keplerElementsRef s)"
    "eccentricity (keplerElementsRef ?s1) = eccentricity (keplerElementsRef s)"
    "meanAnomalyAtEpoch (keplerElementsRef ?s1) = meanAnomalyAtEpoch (keplerElementsRef s)"
    "elementsRad (keplerElementsRef ?s1) = elementsRad (keplerElementsRef s)"
    using arg_cong [OF e1, of semiMajorAxis] arg_cong [OF e1, of eccentricity]
      arg_cong [OF e1, of meanAnomalyAtEpoch] arg_cong [OF e1, of elementsRad]
    by simp_all
  have ot: "orbitType ?s1 = orbitType s"
    by (rule useFrame_orbitType)
  note p1 = useFrame_paused_position [OF assms(1), of solveKepler three props inp1 s]
  note p2 = useFrame_paused_position [OF assms(2), of solveKepler three props inp2 ?s1,
      unfolded same ot]
  have "planetGroupPosition ?s2 = planetGroupPosition ?s1"
    using assms(3,4) p1 p2 by (simp split: option.split)
  then show ?thesis using e1 e2' by blast
qed

theorem paused_frames_identical_witness:
  "speedFactor ctx_paused = 0 \<and> AU ctx_paused = AU ctx_paused
   \<and> planetGroupMounted ctx_paused = planetGroupMounted ctx_paused
   \<and> eccentricityRate props_example \<noteq> 0
   \<and> eccentricity (keplerElementsRef (useFrame solveKepler_circular three_unit props_example
        ctx_paused inp_half_period
        (useFrame solveKepler_circular three_unit props_example ctx_paused inp_example
           (mount props_example ())))) = 9 / 10
   \<and> planetGroupPosition (useFrame solveKepler_circular three_unit props_example
        ctx_paused inp_half_period
        (useFrame solveKepler_circular three_unit props_example ctx_paused inp_example
           (mount props_example ()))) =
       planetGroupPosition (useFrame solveKepler_circular three_unit props_example ctx_paused
         inp_example (mount props_example ()))"
proof -
  have h: "speedFactor ctx_paused = 0"
    by (simp add: ctx_paused_def)
  have r: "eccentricityRate props_example \<noteq> 0"
    by (simp add: props_example_def)
  have e0: "eccentricity (keplerElementsRef (mount props_example ())) = 9 / 10"
    by (simp add: mount_def initialElements_def props_example_def)
  note inst = paused_frames_identical [OF h h refl refl, of solveKepler_circular three_unit
      props_example inp_example "mount props_example ()" inp_half_period]
  have "eccentricity (keplerElementsRef (useFrame solveKepler_circular three_unit props_example
        ctx_paused inp_half_period
        (useFrame solveKepler_circular three_unit props_example ctx_paused inp_example
           (mount props_example ())))) = eccentricity (keplerElementsRef (mount props_example ()))"
    using arg_cong [OF conjunct1 [OF conjunct2 [OF inst]], of eccentricity] by simp
  then show ?thesis
    using h r e0 inst by simp
qed

subsection \<open>Elapsed time times speed factor\<close>

lemmas eval_frame =
  useFrame_def placeBody_def Let_def mount_def initialElements_def
  integrateElements_def elementsRad_def deg2rad_def meanAnomaly_def n_meanMotion_def
  orbitTypeOf_def trueAnomaly_def radius_def js_sqrt_def atan2_def inertialPosition_def

text \<open>
  C9, as the claim states it, fails in two places. The position is not a function of
  the product \<open>clock * speed\<close>: the elements that enter it accumulate the per-frame
  drift \<open>rate * delta * speed / 86400\<close>. A circular body whose semi-major axis grows
  by 1 per simulated day, run for one period at speed factor 86400, is put at
  \<open>(200, 0, 0)\<close> by a frame of 1 s and at \<open>(300, 0, 0)\<close> by a frame of 2 s, at the
  same clock and speed. And a frame at speed factor 0 does not always put the body at
  the elapsed-time-zero position: for an orbital period of 0 the mean motion is infinite
  and the mean anomaly at speed 0 is NaN, for which the stand-in solver (as any solver
  that answers NaN to NaN) fails, and the frame holds the previous position.
\<close>

theorem position_not_product_counterexample:
  "clockElapsed inp_full_period * speedFactor ctx_example =
     clockElapsed inp_full_period_long * speedFactor ctx_example
   \<and> planetGroupPosition (useFrame solveKepler_circular three_unit props_growing ctx_example
        inp_full_period (mount props_growing ())) = Vector3 200 0 0
   \<and> planetGroupPosition (useFrame solveKepler_circular three_unit props_growing ctx_example
        inp_full_period_long (mount props_growing ())) = Vector3 300 0 0
   \<and> speedFactor ctx_paused = 0
   \<and> fst (solverCall props_no_period ctx_paused inp_full_period
        (useFrame solveKepler_circular three_unit props_no_period ctx_example inp_example
           (mount props_no_period ()))) = NaN
   \<and> planetGroupPosition (useFrame solveKepler_circular three_unit props_no_period ctx_paused
        inp_full_period
        (useFrame solveKepler_circular three_unit props_no_period ctx_example inp_example
           (mount props_no_period ()))) =
       planetGroupPosition (useFrame solveKepler_circular three_unit props_no_period ctx_example
         inp_example (mount props_no_period ()))"
  by (simp add: eval_frame solverCall_def props_growing_def props_no_period_def
      props_circular_def ctx_example_def ctx_paused_def inp_full_period_def
      inp_full_period_long_def inp_example_def)

lemma useFrame_product:
  assumes "clockElapsed inp * speedFactor ctx = clockElapsed inp' * speedFactor ctx'"
    and "delta inp * speedFactor ctx = delta inp' * speedFactor ctx'"
    and "AU ctx' = AU ctx" and "planetGroupMounted ctx' = planetGroupMounted ctx"
    and "cameraPosition inp' = cameraPosition inp"
  shows "planetGroupPosition (useFrame solveKepler three props ctx inp s) =
           planetGroupPosition (useFrame solveKepler three props ctx' inp' s)
       \<and> keplerElementsRef (useFrame solveKepler three props ctx inp s) =
           keplerElementsRef (useFrame solveKepler three props ctx' inp' s)"
proof -
  have call: "solverCall props ctx' inp' s = solverCall props ctx inp s"
    using assms(1,2) by (simp add: solverCall_def)
  show ?thesis
    using assms
    by (simp add: useFrame_unfold call Let_def placeBody_position placeBody_elements
        split: option.split)
qed

lemma useFrame_skipped_position:
  assumes "solveKepler (fst (solverCall props ctx inp s)) (snd (solverCall props ctx inp s)) = None"
  shows "planetGroupPosition (useFrame solveKepler three props ctx inp s) = planetGroupPosition s"
  using assms by (simp add: useFrame_unfold Let_def)

text \<open>
  C9, amended: the mean anomaly handed to the solver is the (drifted) epoch anomaly
  plus the mean motion times the product of the clock's total elapsed time and the
  current speed factor; no simulated time is accumulated in the state, so a change of
  the speed factor rescales the whole elapsed interval. The position is a function of
  that product and of the current elements, which do accumulate the per-frame drift:
  two frames from the same state (same scale factor, mount state and camera) whose
  products \<open>clock * speed\<close> and \<open>delta * speed\<close> agree store the same elements and
  the same position, whatever the factors. At speed factor 0 a frame that places the body (scale factor set, group
  mounted, solver call answered) puts it at the position of elapsed time zero, computed
  from the current elements alone, not at the position of the previous frame; a frame
  whose solver call fails holds the previous position, and for an orbital period of 0
  the mean anomaly of that call is NaN.
\<close>

theorem anomaly_from_total_elapsed:
  "fst (solverCall props ctx inp s) =
     meanAnomaly (orbitType s)
       (deg2rad (meanAnomalyAtEpoch (keplerElementsRef s)
                 + meanAnomalyAtEpochRate props * ((delta inp * speedFactor ctx) / 86400)))
       (n_meanMotion props) (clockElapsed inp * speedFactor ctx)
   \<and> (clockElapsed inp * speedFactor ctx = clockElapsed inp' * speedFactor ctx'
        \<and> delta inp * speedFactor ctx = delta inp' * speedFactor ctx'
        \<and> AU ctx' = AU ctx \<and> planetGroupMounted ctx' = planetGroupMounted ctx
        \<and> cameraPosition inp' = cameraPosition inp
      \<longrightarrow> planetGroupPosition (useFrame solveKepler three props ctx inp s) =
            planetGroupPosition (useFrame solveKepler three props ctx' inp' s)
          \<and> keplerElementsRef (useFrame solveKepler three props ctx inp s) =
            keplerElementsRef (useFrame solveKepler three props ctx' inp' s))
   \<and> (speedFactor ctx = 0 \<and> AU ctx \<noteq> 0 \<and> planetGroupMounted ctx
        \<and> solveKepler
             (meanAnomaly (orbitType s) (deg2rad (meanAnomalyAtEpoch (keplerElementsRef s)))
                (n_meanMotion props) 0)
             (eccentricity (keplerElementsRef s)) = Some E
      \<longrightarrow> planetGroupPosition (useFrame solveKepler three props ctx inp s) =
            inertialPosition (elementsRad (keplerElementsRef s)) (AU ctx)
              (trueAnomaly (orbitType s) (eccentricity (keplerElementsRef s)) E)
              (radius (orbitType s) (semiMajorAxis (keplerElementsRef s))
                 (eccentricity (keplerElementsRef s)) E))
   \<and> (speedFactor ctx = 0 \<and> orbitalPeriod props = 0 \<longrightarrow>
        fst (solverCall props ctx inp s) = NaN)
   \<and> (solveKepler (fst (solverCall props ctx inp s)) (snd (solverCall props ctx inp s)) = None
      \<longrightarrow> planetGroupPosition (useFrame solveKepler three props ctx inp s) =
            planetGroupPosition s)"
proof -
  have one: "fst (solverCall props ctx inp s) =
     meanAnomaly (orbitType s)
       (deg2rad (meanAnomalyAtEpoch (keplerElementsRef s)
                 + meanAnomalyAtEpochRate props * ((delta inp * speedFactor ctx) / 86400)))
       (n_meanMotion props) (clockElapsed inp * speedFactor ctx)"
    by (simp add: solverCall_def Let_def integrateElements_def)
  have three: "speedFactor ctx = 0 \<Longrightarrow> AU ctx \<noteq> 0 \<Longrightarrow> planetGroupMounted ctx \<Longrightarrow>
      solveKepler
        (meanAnomaly (orbitType s) (deg2rad (meanAnomalyAtEpoch (keplerElementsRef s)))
           (n_meanMotion props) 0)
        (eccentricity (keplerElementsRef s)) = Some E \<Longrightarrow>
      planetGroupPosition (useFrame solveKepler three props ctx inp s) =
        inertialPosition (elementsRad (keplerElementsRef s)) (AU ctx)
          (trueAnomaly (orbitType s) (eccentricity (keplerElementsRef s)) E)
          (radius (orbitType s) (semiMajorAxis (keplerElementsRef s))
             (eccentricity (keplerElementsRef s)) E)"
    by (simp add: useFrame_paused_position)
  have four: "speedFactor ctx = 0 \<Longrightarrow> orbitalPeriod props = 0 \<Longrightarrow>
      fst (solverCall props ctx inp s) = NaN"
    by (simp add: solverCall_def Let_def meanAnomaly_def n_meanMotion_def)
  show ?thesis
    using one three four useFrame_product [of inp ctx inp' ctx' solveKepler three props s]
      useFrame_skipped_position [of solveKepler props ctx inp s three]
    by blast
qed

text \<open>
  In the example the growing body is put at \<open>(200, 0, 0)\<close> both by one period at
  speed factor 86400 and by two periods of clock time at speed factor 43200; and a
  circular orbit run for half a period, which puts the body at \<open>(-100, 0, 0)\<close>, is
  returned to the epoch position \<open>(100, 0, 0)\<close> by the next frame at speed factor 0.
\<close>

theorem anomaly_from_total_elapsed_witness:
  "clockElapsed inp_full_period * speedFactor ctx_example =
     clockElapsed inp_two_periods * speedFactor ctx_slower
   \<and> delta inp_full_period * speedFactor ctx_example =
       delta inp_two_periods * speedFactor ctx_slower
   \<and> AU ctx_slower = AU ctx_example
   \<and> planetGroupMounted ctx_slower = planetGroupMounted ctx_example
   \<and> cameraPosition inp_two_periods = cameraPosition inp_full_period
   \<and> planetGroupPosition (useFrame solveKepler_circular three_unit props_growing ctx_example
        inp_full_period (mount props_growing ())) = Vector3 200 0 0
   \<and> planetGroupPosition (useFrame solveKepler_circular three_unit props_growing ctx_slower
        inp_two_periods (mount props_growing ())) = Vector3 200 0 0
   \<and> speedFactor ctx_paused = 0 \<and> AU ctx_paused \<noteq> 0 \<and> planetGroupMounted ctx_paused
   \<and> planetGroupPosition (useFrame solveKepler_circular three_unit props_circular ctx_example
        inp_half_period (mount props_circular ())) = Vector3 (- 100) 0 0
   \<and> planetGroupPosition (useFrame solveKepler_circular three_unit props_circular ctx_paused
        inp_full_period
        (useFrame solveKepler_circular three_unit props_circular ctx_example
           inp_half_period (mount props_circular ()))) = Vector3 100 0 0"
proof -
  let ?run = "useFrame solveKepler_circular three_unit props_circular ctx_example
      inp_half_period (mount props_circular ())"
  have prod: "clockElapsed inp_full_period * speedFactor ctx_example =
        clockElapsed inp_two_periods * speedFactor ctx_slower
      \<and> delta inp_full_period * speedFactor ctx_example =
          delta inp_two_periods * speedFactor ctx_slower
      \<and> AU ctx_slower = AU ctx_example
      \<and> planetGroupMounted ctx_slower = planetGroupMounted ctx_example
      \<and> cameraPosition inp_two_periods = cameraPosition inp_full_period"
    by (simp add: inp_full_period_def inp_two_periods_def ctx_example_def ctx_slower_def)
  have grown: "planetGroupPosition (useFrame solveKepler_circular three_unit props_growing
        ctx_example inp_full_period (mount props_growing ())) = Vector3 200 0 0"
    by (simp add: eval_frame props_growing_def props_circular_def ctx_example_def
        inp_full_period_def)
  have same: "planetGroupPosition (useFrame solveKepler_circular three_unit props_growing
        ctx_slower inp_two_periods (mount props_growing ())) = Vector3 200 0 0"
    using prod grown
      anomaly_from_total_elapsed [where props = props_growing and ctx = ctx_example
        and inp = inp_full_period and ctx' = ctx_slower and inp' = inp_two_periods
        and solveKepler = solveKepler_circular and three = three_unit
        and s = "mount props_growing ()"]
    by simp
  have paused: "speedFactor ctx_paused = 0 \<and> AU ctx_paused \<noteq> 0 \<and> planetGroupMounted ctx_paused"
    by (simp add: ctx_paused_def ctx_example_def)
  have run: "planetGroupPosition ?run = Vector3 (- 100) 0 0"
    by (simp add: eval_frame props_circular_def ctx_example_def inp_half_period_def)
  have fields: "orbitType ?run = Elliptical"
    "eccentricity (keplerElementsRef ?run) = 0"
    "semiMajorAxis (keplerElementsRef ?run) = 1"
    "meanAnomalyAtEpoch (keplerElementsRef ?run) = 0"
    "inclination (keplerElementsRef ?run) = 0"
    "longitudeOfAscendingNode (keplerElementsRef ?run) = 0"
    "argumentOfPeriapsis (keplerElementsRef ?run) = 0"
    by (simp_all add: useFrame_def placeBody_def Let_def mount_def initialElements_def
        integrateElements_def orbitTypeOf_def props_circular_def ctx_example_def
        split: option.split)
  have solved: "solveKepler_circular
      (meanAnomaly (orbitType ?run) (deg2rad (meanAnomalyAtEpoch (keplerElementsRef ?run)))
         (n_meanMotion props_circular) 0)
      (eccentricity (keplerElementsRef ?run)) = Some 0"
  proof -
    have "n_meanMotion props_circular = Finite (2 * pi / (365 * 86400))"
      by (simp add: n_meanMotion_def props_circular_def)
    then show ?thesis
      by (simp add: fields meanAnomaly_def deg2rad_def)
  qed
  have "planetGroupPosition (useFrame solveKepler_circular three_unit props_circular ctx_paused
        inp_full_period ?run) =
      inertialPosition (elementsRad (keplerElementsRef ?run)) (AU ctx_paused)
        (trueAnomaly (orbitType ?run) (eccentricity (keplerElementsRef ?run)) 0)
        (radius (orbitType ?run) (semiMajorAxis (keplerElementsRef ?run))
           (eccentricity (keplerElementsRef ?run)) 0)"
    using paused solved
      anomaly_from_total_elapsed [where props = props_circular and ctx = ctx_paused
        and inp = inp_full_period and solveKepler = solveKepler_circular and three = three_unit
        and s = ?run and E = 0]
    by blast
  moreover have au: "AU ctx_paused = 100"
    by (simp add: ctx_paused_def ctx_example_def)
  ultimately have epoch: "planetGroupPosition (useFrame solveKepler_circular three_unit
        props_circular ctx_paused inp_full_period ?run) = Vector3 100 0 0"
    by (simp add: fields elementsRad_def deg2rad_def trueAnomaly_def radius_def js_sqrt_def
        atan2_def inertialPosition_def)
  show ?thesis
    using prod grown same paused run epoch by blast
qed

subsection \<open>The hyperbolic sign flip\<close>

text \<open>
  C5, as the claim states it, fails. With epoch anomaly 0 and mean motion 1, the frame
  at elapsed time \<open>-1\<close> first computes \<open>M = -1\<close> and then, because the elapsed time
  is not positive, negates it: the solver gets \<open>M = 1\<close>, a positive mean anomaly for a
  negative elapsed time, and the same argument as at elapsed time \<open>+1\<close>. The two true
  anomalies are therefore equal, and not zero (here for eccentricity 2 and the stand-in
  solver), instead of having opposite signs.
\<close>

theorem hyperbolic_same_side_counterexample:
  "meanAnomaly Hyperbolic 0 (Finite 1) 1 = Finite 1
   \<and> meanAnomaly Hyperbolic 0 (Finite 1) (- 1) = Finite 1
   \<and> propagatedAnomaly solveKepler_circular Hyperbolic 0 (Finite 1) 2 (- 1) =
       propagatedAnomaly solveKepler_circular Hyperbolic 0 (Finite 1) 2 1
   \<and> propagatedAnomaly solveKepler_circular Hyperbolic 0 (Finite 1) 2 1 \<noteq> None
   \<and> propagatedAnomaly solveKepler_circular Hyperbolic 0 (Finite 1) 2 1 \<noteq> Some 0"
  by (simp add: meanAnomaly_def propagatedAnomaly_def trueAnomaly_def js_sqrt_def atan2_def)

text \<open>
  C5, amended: for every body created with an eccentricity above 1 (its regime is
  fixed as hyperbolic at creation, whatever the eccentricity drifts to), in every state
  it reaches, the mean anomaly handed to the solver is \<open>M0 + n * t\<close> when the elapsed
  time \<open>t\<close> is positive and \<open>- (M0 + n * t)\<close> otherwise, with \<open>M0\<close> the drifted epoch
  anomaly in radians and \<open>n\<close> the mean motion (finite when the orbital period is not 0).
  At elapsed times \<open>+T\<close> and \<open>-T\<close> the solver therefore receives \<open>M0 + n * T\<close> and
  \<open>n * T - M0\<close>; with epoch anomaly 0 (and no drift of it) both calls get the same mean
  anomaly, so at the same eccentricity the two true anomalies are equal, for every
  solver.
\<close>

theorem hyperbolic_mirror:
  assumes created: "1 < eccentricity props"
    and reached: "s = frames solveKepler three props fs (mount props o0)"
  shows "orbitType s = Hyperbolic
   \<and> fst (solverCall props ctx inp s) =
       (if clockElapsed inp * speedFactor ctx > 0
        then number_plus
               (deg2rad (meanAnomalyAtEpoch (keplerElementsRef s)
                  + meanAnomalyAtEpochRate props * ((delta inp * speedFactor ctx) / 86400)))
               (number_times (n_meanMotion props) (clockElapsed inp * speedFactor ctx))
        else number_negate (number_plus
               (deg2rad (meanAnomalyAtEpoch (keplerElementsRef s)
                  + meanAnomalyAtEpochRate props * ((delta inp * speedFactor ctx) / 86400)))
               (number_times (n_meanMotion props) (clockElapsed inp * speedFactor ctx))))
   \<and> (orbitalPeriod props \<noteq> 0 \<longrightarrow>
        fst (solverCall props ctx inp s) =
          Finite (if clockElapsed inp * speedFactor ctx > 0
           then deg2rad (meanAnomalyAtEpoch (keplerElementsRef s)
                  + meanAnomalyAtEpochRate props * ((delta inp * speedFactor ctx) / 86400))
                + 2 * pi / (orbitalPeriod props * 86400) * (clockElapsed inp * speedFactor ctx)
           else - (deg2rad (meanAnomalyAtEpoch (keplerElementsRef s)
                     + meanAnomalyAtEpochRate props * ((delta inp * speedFactor ctx) / 86400))
                   + 2 * pi / (orbitalPeriod props * 86400)
                     * (clockElapsed inp * speedFactor ctx))))
   \<and> (0 < T \<and> clockElapsed inp * speedFactor ctx = T
        \<and> clockElapsed inp' * speedFactor ctx' = - T
        \<and> meanAnomalyAtEpoch (keplerElementsRef s) = 0 \<and> meanAnomalyAtEpochRate props = 0
      \<longrightarrow> fst (solverCall props ctx' inp' s) = fst (solverCall props ctx inp s))
   \<and> (0 < T \<longrightarrow>
        meanAnomaly (orbitType s) mEpoch (Finite n) T = Finite (mEpoch + n * T)
        \<and> meanAnomaly (orbitType s) mEpoch (Finite n) (- T) = Finite (n * T - mEpoch)
        \<and> propagatedAnomaly solveKepler (orbitType s) 0 (Finite n) e (- T) =
            propagatedAnomaly solveKepler (orbitType s) 0 (Finite n) e T)"
proof -
  have ot: "orbitType s = Hyperbolic"
    using created reached by (simp add: created_hyperbolic)
  have call: "fst (solverCall props ctx inp s) =
       (if clockElapsed inp * speedFactor ctx > 0
        then number_plus
               (deg2rad (meanAnomalyAtEpoch (keplerElementsRef s)
                  + meanAnomalyAtEpochRate props * ((delta inp * speedFactor ctx) / 86400)))
               (number_times (n_meanMotion props) (clockElapsed inp * speedFactor ctx))
        else number_negate (number_plus
               (deg2rad (meanAnomalyAtEpoch (keplerElementsRef s)
                  + meanAnomalyAtEpochRate props * ((delta inp * speedFactor ctx) / 86400)))
               (number_times (n_meanMotion props) (clockElapsed inp * speedFactor ctx))))"
    for ctx inp
    using ot by (simp add: solverCall_def Let_def meanAnomaly_def integrateElements_def)
  have fin: "orbitalPeriod props \<noteq> 0 \<Longrightarrow>
        fst (solverCall props ctx inp s) =
          Finite (if clockElapsed inp * speedFactor ctx > 0
           then deg2rad (meanAnomalyAtEpoch (keplerElementsRef s)
                  + meanAnomalyAtEpochRate props * ((delta inp * speedFactor ctx) / 86400))
                + 2 * pi / (orbitalPeriod props * 86400) * (clockElapsed inp * speedFactor ctx)
           else - (deg2rad (meanAnomalyAtEpoch (keplerElementsRef s)
                     + meanAnomalyAtEpochRate props * ((delta inp * speedFactor ctx) / 86400))
                   + 2 * pi / (orbitalPeriod props * 86400)
                     * (clockElapsed inp * speedFactor ctx)))"
    by (simp add: call n_meanMotion_def)
  have mirror: "fst (solverCall props ctx' inp' s) = fst (solverCall props ctx inp s)"
    if "0 < T" "clockElapsed inp * speedFactor ctx = T"
      "clockElapsed inp' * speedFactor ctx' = - T"
      "meanAnomalyAtEpoch (keplerElementsRef s) = 0" "meanAnomalyAtEpochRate props = 0"
    using that by (cases "n_meanMotion props") (simp_all add: call deg2rad_def)
  have fn: "meanAnomaly (orbitType s) mEpoch (Finite n) T = Finite (mEpoch + n * T)
        \<and> meanAnomaly (orbitType s) mEpoch (Finite n) (- T) = Finite (n * T - mEpoch)
        \<and> propagatedAnomaly solveKepler (orbitType s) 0 (Finite n) e (- T) =
            propagatedAnomaly solveKepler (orbitType s) 0 (Finite n) e T"
    if "0 < T"
    using that ot by (simp add: meanAnomaly_def propagatedAnomaly_def)
  show ?thesis
    using ot call [of ctx inp] fin mirror fn by blast
qed

theorem hyperbolic_mirror_witness:
  "1 < eccentricity (props_example\<lparr>eccentricity := 2\<rparr>)
   \<and> orbitType (frames solveKepler_circular three_unit (props_example\<lparr>eccentricity := 2\<rparr>)
        [(ctx_example, inp_example)] (mount (props_example\<lparr>eccentricity := 2\<rparr>) ())) = Hyperbolic
   \<and> orbitalPeriod (props_example\<lparr>eccentricity := 2\<rparr>) \<noteq> 0
   \<and> fst (solverCall (props_example\<lparr>eccentricity := 2\<rparr>) (ctx_example\<lparr>speedFactor := - 86400\<rparr>)
        (inp_example\<lparr>delta := 0\<rparr>)
        (frames solveKepler_circular three_unit (props_example\<lparr>eccentricity := 2\<rparr>)
           [(ctx_example, inp_example)] (mount (props_example\<lparr>eccentricity := 2\<rparr>) ()))) =
       Finite (2 * pi / 365)
   \<and> fst (solverCall (props_example\<lparr>eccentricity := 2\<rparr>) ctx_example
        (inp_example\<lparr>delta := 0\<rparr>)
        (frames solveKepler_circular three_unit (props_example\<lparr>eccentricity := 2\<rparr>)
           [(ctx_example, inp_example)] (mount (props_example\<lparr>eccentricity := 2\<rparr>) ()))) =
       Finite (2 * pi / 365)
   \<and> (0::real) < 86400"
proof -
  let ?p = "props_example\<lparr>eccentricity := 2\<rparr>"
  let ?reversed = "ctx_example\<lparr>speedFactor := - 86400\<rparr>"
  let ?i = "inp_example\<lparr>delta := 0\<rparr>"
  let ?s = "frames solveKepler_circular three_unit ?p [(ctx_example, inp_example)] (mount ?p ())"
  have created: "1 < eccentricity ?p"
    by simp
  have period: "orbitalPeriod ?p \<noteq> 0" "orbitalPeriod ?p = 365"
    by (simp_all add: props_example_def)
  have T: "(0::real) < 86400"
    by simp
  have epoch: "meanAnomalyAtEpoch (keplerElementsRef ?s) = 0"
    "meanAnomalyAtEpochRate ?p = 0"
    by (simp_all add: useFrame_def placeBody_def Let_def mount_def initialElements_def
        integrateElements_def props_example_def ctx_example_def split: option.split)
  have times: "clockElapsed ?i * speedFactor ctx_example = 86400"
    "clockElapsed ?i * speedFactor ?reversed = - 86400"
    "delta ?i * speedFactor ctx_example = 0"
    by (simp_all add: inp_example_def ctx_example_def)
  note inst = hyperbolic_mirror [OF created refl, where solveKepler = solveKepler_circular
      and three = three_unit and fs = "[(ctx_example, inp_example)]" and ?o0.0 = "()"
      and ctx = ctx_example and inp = ?i and ctx' = ?reversed and inp' = ?i and T = 86400]
  have ot: "orbitType ?s = Hyperbolic"
    using inst by blast
  have forward: "fst (solverCall ?p ctx_example ?i ?s) = Finite (2 * pi / 365)"
    using conjunct1 [OF conjunct2 [OF conjunct2 [OF inst]]] period epoch times
    by (simp add: deg2rad_def)
  have mirrored: "fst (solverCall ?p ?reversed ?i ?s) = fst (solverCall ?p ctx_example ?i ?s)"
    using conjunct1 [OF conjunct2 [OF conjunct2 [OF conjunct2 [OF inst]]]] T epoch times
    by blast
  show ?thesis
    using created ot period(1) forward mirrored T by simp
qed

subsection \<open>The sampled mean anomalies\<close>

lemma orbitLoop_length: "length (orbitLoop solveKepler au s idxs) \<le> length idxs"
  by (induction idxs) (auto simp: Let_def split: option.split)

text \<open>
  C6: what the sampler does for a hyperbolic orbit. It takes the samples
  \<open>idx = 0, \<dots>, 64\<close>, fewer than the 129 of the elliptical case, at the mean
  anomalies \<open>(idx - 64) / 10\<close>: the sweep starts at \<open>-6.4\<close> and ends at periapsis
  (\<open>M = 0\<close>). It is a bounded, open arc, but it lies on one side of periapsis: no
  sample has a positive mean anomaly.
\<close>

theorem hyperbolic_sweep_one_sided:
  "sweepM Hyperbolic 0 = - (32 / 5)
   \<and> sweepM Hyperbolic (maxIdx Hyperbolic) = 0
   \<and> (idx \<le> maxIdx Hyperbolic \<longrightarrow>
        - (32 / 5) \<le> sweepM Hyperbolic idx \<and> sweepM Hyperbolic idx \<le> 0)
   \<and> (orbitType s = Hyperbolic \<longrightarrow>
        orbitPoints solveKepler au s = orbitLoop solveKepler au s [0 ..< 65]
        \<and> length (orbitPoints solveKepler au s) \<le> 65)"
proof -
  have "length (orbitLoop solveKepler au s [0 ..< 65]) \<le> 65"
    using orbitLoop_length [of solveKepler au s "[0 ..< 65]"] by simp
  then show ?thesis
    by (simp add: sweepM_def maxIdx_def segments_def orbitPoints_def)
qed

theorem hyperbolic_sweep_one_sided_witness:
  "(64::nat) \<le> maxIdx Hyperbolic
   \<and> sweepM Hyperbolic 64 = 0
   \<and> sweepM Hyperbolic 63 = - (1 / 10)
   \<and> orbitType (mount (props_example\<lparr>eccentricity := 2\<rparr>) ()) = Hyperbolic
   \<and> length (orbitPoints solveKepler_circular 100 (mount (props_example\<lparr>eccentricity := 2\<rparr>) ()))
        \<le> 65"
proof -
  have ot: "orbitType (mount (props_example\<lparr>eccentricity := 2\<rparr>) ()) = Hyperbolic"
    by (simp add: mount_def initialElements_def orbitTypeOf_def)
  have le: "(64::nat) \<le> maxIdx Hyperbolic"
    by (simp add: maxIdx_def)
  have vals: "sweepM Hyperbolic 64 = 0" "sweepM Hyperbolic 63 = - (1 / 10)"
    by (simp_all add: sweepM_def segments_def)
  show ?thesis
    using ot le vals
      hyperbolic_sweep_one_sided [where idx = 64 and solveKepler = solveKepler_circular
        and au = 100 and s = "mount (props_example\<lparr>eccentricity := 2\<rparr>) ()"]
    by blast
qed

subsection \<open>The elliptical path\<close>

lemma sin_lipschitz: "\<bar>sin x - sin y\<bar> \<le> \<bar>x - y\<bar>" for x y :: real
proof -
  have s: "\<bar>sin ((x - y) / 2)\<bar> \<le> \<bar>(x - y) / 2\<bar>"
    by (rule abs_sin_x_le_abs_x)
  have c: "\<bar>cos ((x + y) / 2)\<bar> \<le> 1"
    by (rule abs_cos_le_one)
  have "sin x - sin y = 2 * sin ((x - y) / 2) * cos ((x + y) / 2)"
    by (rule sin_diff_sin)
  then have "\<bar>sin x - sin y\<bar> = 2 * (\<bar>sin ((x - y) / 2)\<bar> * \<bar>cos ((x + y) / 2)\<bar>)"
    by (simp add: abs_mult)
  also have "\<bar>sin ((x - y) / 2)\<bar> * \<bar>cos ((x + y) / 2)\<bar> \<le> \<bar>(x - y) / 2\<bar> * 1"
    using s c by (intro mult_mono) simp_all
  finally show ?thesis
    by simp
qed

lemma kepler_root_unique:
  fixes e :: real
  assumes "0 \<le> e" and "e < 1" and "E - e * sin E = F - e * sin F"
  shows "E = F"
proof (rule ccontr)
  assume ne: "E \<noteq> F"
  have "E - F = e * (sin E - sin F)"
    using assms(3) by (simp add: algebra_simps)
  then have "\<bar>E - F\<bar> = e * \<bar>sin E - sin F\<bar>"
    using assms(1) by (simp add: abs_mult)
  also have "\<dots> \<le> e * \<bar>E - F\<bar>"
    using sin_lipschitz [of E F] assms(1) by (simp add: mult_left_mono)
  finally have "(1 - e) * \<bar>E - F\<bar> \<le> 0"
    by (simp add: algebra_simps)
  moreover have "0 < (1 - e) * \<bar>E - F\<bar>"
    using assms(2) ne by simp
  ultimately show False
    by linarith
qed

lemma trueAnomaly_periapsis:
  assumes "0 \<le> e" and "e < 1"
  shows "trueAnomaly Elliptical e 0 = Some 0"
    and "trueAnomaly Elliptical e (2 * pi) = Some (2 * pi)"
  using assms by (simp_all add: trueAnomaly_def js_sqrt_def atan2_def)

lemma inertialPosition_turn:
  "inertialPosition rad au (Some (2 * pi)) r = inertialPosition rad au (Some 0) r"
  by (simp add: inertialPosition_def)

lemma orbitLoop_map_filter:
  "orbitLoop solveKepler au s idxs =
     List.map_filter
       (\<lambda>idx. map_option
          (\<lambda>E. inertialPosition (updatedElementsRad s) au
                 (trueAnomaly (orbitType s) (eccentricity (keplerElementsRef s)) E)
                 (radius (orbitType s) (semiMajorAxis (keplerElementsRef s))
                    (eccentricity (keplerElementsRef s)) E))
          (solveKepler (Finite (sweepM (orbitType s) idx)) (eccentricity (keplerElementsRef s))))
       idxs"
  by (induction idxs) (auto simp: Let_def map_filter_simps split: option.split)

lemma map_filter_total:
  assumes "\<forall>x \<in> set xs. f x \<noteq> None"
  shows "List.map_filter f xs = map (\<lambda>x. the (f x)) xs"
  using assms by (induction xs) (auto simp: map_filter_simps)

lemma map_filter_hd:
  assumes "f x = Some y"
  shows "List.map_filter f (x # xs) = y # List.map_filter f xs"
  using assms by (simp add: map_filter_simps)

lemma map_filter_last:
  assumes "f x = Some y"
  shows "List.map_filter f (xs @ [x]) = List.map_filter f xs @ [y]"
  using assms by (induction xs) (auto simp: map_filter_simps split: option.split)

lemma orbitLoop_stale_hyperbolic:
  assumes "orbitType s = Hyperbolic" and "eccentricity (keplerElementsRef s) < 1"
  shows "orbitLoop solveKepler_circular au s idxs = replicate (length idxs) Vector3_NaN"
  using assms
  by (induction idxs) (simp_all add: Let_def trueAnomaly_def js_sqrt_def inertialPosition_def)

lemma orbitLoop_nan: "orbitLoop solveKepler_nan au s idxs = []"
  by (induction idxs) (simp_all add: Let_def solveKepler_nan_def)

text \<open>
  C7, as the claim states it, fails. The regime the sampler reads is the one fixed at
  creation: a body created with eccentricity 1.1 whose eccentricity has drifted to 0.9
  is sampled as a hyperbola, at 65 mean anomalies from \<open>-6.4\<close> to 0, and every point is
  NaN (the square root of \<open>e - 1\<close>); there is no sweep over \<open>[0, 2 pi]\<close> and no closed
  loop. And a sample whose solver call yields NaN is skipped: with a solver that answers
  NaN the path of an elliptical body is empty.
\<close>

theorem elliptical_path_counterexample:
  "eccentricity (keplerElementsRef
      (useFrame solveKepler_circular three_unit props_decaying ctx_example inp_example
         (mount props_decaying ()))) = 9 / 10
   \<and> orbitType (useFrame solveKepler_circular three_unit props_decaying ctx_example inp_example
        (mount props_decaying ())) = Hyperbolic
   \<and> orbitPoints solveKepler_circular 100
        (useFrame solveKepler_circular three_unit props_decaying ctx_example inp_example
           (mount props_decaying ())) = replicate 65 Vector3_NaN
   \<and> eccentricity (keplerElementsRef (mount props_circular ())) = 0
   \<and> orbitType (mount props_circular ()) = Elliptical
   \<and> orbitPoints solveKepler_nan 100 (mount props_circular ()) = []"
proof -
  let ?s = "useFrame solveKepler_circular three_unit props_decaying ctx_example inp_example
      (mount props_decaying ())"
  have e: "eccentricity (keplerElementsRef ?s) = 9 / 10"
    by (simp add: useFrame_def placeBody_def Let_def mount_def initialElements_def
        integrateElements_def props_decaying_def props_example_def ctx_example_def
        inp_example_def split: option.split)
  have ot: "orbitType ?s = Hyperbolic"
    by (simp add: useFrame_orbitType mount_orbitType orbitTypeOf_def props_decaying_def)
  have lt: "eccentricity (keplerElementsRef ?s) < 1"
    by (simp add: e)
  have "orbitPoints solveKepler_circular 100 ?s = replicate (length [0 ..< 65]) Vector3_NaN"
    unfolding orbitPoints_def
    using orbitLoop_stale_hyperbolic [OF ot lt, of 100 "[0 ..< 65]"] ot
    by (simp add: maxIdx_def del: upt_Suc)
  then have path: "orbitPoints solveKepler_circular 100 ?s = replicate 65 Vector3_NaN"
    by (simp del: upt_Suc)
  have fresh: "eccentricity (keplerElementsRef (mount props_circular ())) = 0"
    "orbitType (mount props_circular ()) = Elliptical"
    by (simp_all add: mount_def initialElements_def orbitTypeOf_def props_circular_def)
  have none: "orbitPoints solveKepler_nan 100 (mount props_circular ()) = []"
    by (simp add: orbitPoints_def orbitLoop_nan)
  show ?thesis
    using e ot path fresh none by simp
qed

text \<open>
  C7, amended: for every body created with an eccentricity below 1 (its regime is
  fixed as elliptical at creation), in every state it reaches, the sampler sweeps the
  mean anomaly in equal steps over \<open>[0, 2 pi]\<close>, \<open>M = 2 pi idx / 128\<close> for
  \<open>idx = 0, \<dots>, 128\<close>, and returns, in this order, the point of every sample the
  solver answers (a sample answered with NaN is skipped): 129 points, the \<open>k\<close>-th being
  the point of sample \<open>k\<close>, when it answers all. When the current eccentricity is in
  \<open>[0, 1)\<close> and the solver answers the two end samples \<open>M = 0\<close> and \<open>M = 2 pi\<close> with
  roots of Kepler's equation \<open>E - e sin E = M\<close>, the path is a closed loop: its last
  point is equal to its first (so within any tolerance), the periapsis.
\<close>

theorem elliptical_path_closed:
  assumes created: "eccentricity props < 1"
    and reached: "s = frames solveKepler three props fs (mount props o0)"
  shows "orbitType s = Elliptical
   \<and> orbitPoints solveKepler au s =
       List.map_filter
         (\<lambda>idx. map_option
            (\<lambda>E. inertialPosition (updatedElementsRad s) au
                   (trueAnomaly Elliptical (eccentricity (keplerElementsRef s)) E)
                   (radius Elliptical (semiMajorAxis (keplerElementsRef s))
                      (eccentricity (keplerElementsRef s)) E))
            (solveKepler (Finite (2 * pi * real idx / 128)) (eccentricity (keplerElementsRef s))))
         [0 ..< 129]
   \<and> ((\<forall>idx < 129. solveKepler (Finite (2 * pi * real idx / 128))
                        (eccentricity (keplerElementsRef s)) \<noteq> None) \<longrightarrow>
        length (orbitPoints solveKepler au s) = 129
        \<and> (\<forall>k < 129. \<forall>E. solveKepler (Finite (2 * pi * real k / 128))
                              (eccentricity (keplerElementsRef s)) = Some E \<longrightarrow>
              orbitPoints solveKepler au s ! k =
                inertialPosition (updatedElementsRad s) au
                  (trueAnomaly Elliptical (eccentricity (keplerElementsRef s)) E)
                  (radius Elliptical (semiMajorAxis (keplerElementsRef s))
                     (eccentricity (keplerElementsRef s)) E)))
   \<and> (0 \<le> eccentricity (keplerElementsRef s) \<and> eccentricity (keplerElementsRef s) < 1
        \<and> solveKepler (Finite 0) (eccentricity (keplerElementsRef s)) = Some E0
        \<and> E0 - eccentricity (keplerElementsRef s) * sin E0 = 0
        \<and> solveKepler (Finite (2 * pi)) (eccentricity (keplerElementsRef s)) = Some E1
        \<and> E1 - eccentricity (keplerElementsRef s) * sin E1 = 2 * pi
      \<longrightarrow> orbitPoints solveKepler au s \<noteq> []
          \<and> hd (orbitPoints solveKepler au s) =
              inertialPosition (updatedElementsRad s) au (Some 0)
                (semiMajorAxis (keplerElementsRef s) * (1 - eccentricity (keplerElementsRef s)))
          \<and> last (orbitPoints solveKepler au s) = hd (orbitPoints solveKepler au s))"
proof -
  let ?e = "eccentricity (keplerElementsRef s)"
  let ?a = "semiMajorAxis (keplerElementsRef s)"
  let ?pt = "\<lambda>E. inertialPosition (updatedElementsRad s) au
                   (trueAnomaly Elliptical ?e E) (radius Elliptical ?a ?e E)"
  let ?f = "\<lambda>idx. map_option ?pt (solveKepler (Finite (2 * pi * real idx / 128)) ?e)"
  let ?p = "inertialPosition (updatedElementsRad s) au (Some 0) (?a * (1 - ?e))"
  have ot: "orbitType s = Elliptical"
    using created reached
    by (simp add: frames_orbitType mount_orbitType orbitTypeOf_def)
  have path: "orbitPoints solveKepler au s = List.map_filter ?f [0 ..< 129]"
    using ot
    by (simp add: orbitPoints_def orbitLoop_map_filter maxIdx_def segments_def sweepM_def)
  have total: "length (orbitPoints solveKepler au s) = 129
      \<and> (\<forall>k < 129. \<forall>E. solveKepler (Finite (2 * pi * real k / 128)) ?e = Some E \<longrightarrow>
            orbitPoints solveKepler au s ! k = ?pt E)"
    if all: "\<forall>idx < 129. solveKepler (Finite (2 * pi * real idx / 128)) ?e \<noteq> None"
  proof -
    have "\<forall>x \<in> set [0 ..< 129]. ?f x \<noteq> None"
      using all by simp
    then have m: "orbitPoints solveKepler au s = map (\<lambda>x. the (?f x)) [0 ..< 129]"
      unfolding path by (rule map_filter_total)
    have len: "length (orbitPoints solveKepler au s) = 129"
      by (subst m) simp
    have nth: "orbitPoints solveKepler au s ! k = ?pt E"
      if "k < 129" "solveKepler (Finite (2 * pi * real k / 128)) ?e = Some E" for k E
    proof -
      have "orbitPoints solveKepler au s ! k = the (?f ([0 ..< 129] ! k))"
        using that(1) by (subst m) (simp del: upt_Suc)
      also have "[0 ..< 129] ! k = k"
        using that(1) by (simp del: upt_Suc)
      finally show ?thesis
        using that(2) by simp
    qed
    show ?thesis
      using len nth by blast
  qed
  have closed: "orbitPoints solveKepler au s \<noteq> []
      \<and> hd (orbitPoints solveKepler au s) = ?p
      \<and> last (orbitPoints solveKepler au s) = hd (orbitPoints solveKepler au s)"
    if e0: "0 \<le> ?e" and e1: "?e < 1"
      and s0: "solveKepler (Finite 0) ?e = Some E0" and r0: "E0 - ?e * sin E0 = 0"
      and s1: "solveKepler (Finite (2 * pi)) ?e = Some E1" and r1: "E1 - ?e * sin E1 = 2 * pi"
  proof -
    have "E0 - ?e * sin E0 = 0 - ?e * sin 0"
      using r0 by simp
    then have E0z: "E0 = 0"
      using e0 e1 by (rule kepler_root_unique [rotated 2])
    have "E1 - ?e * sin E1 = 2 * pi - ?e * sin (2 * pi)"
      using r1 by simp
    then have E1z: "E1 = 2 * pi"
      using e0 e1 by (rule kepler_root_unique [rotated 2])
    have f0: "?f 0 = Some ?p"
      using s0 E0z e0 e1 by (simp add: trueAnomaly_periapsis radius_def)
    have f1: "?f 128 = Some ?p"
      using s1 E1z e0 e1
      by (simp add: trueAnomaly_periapsis radius_def inertialPosition_turn)
    have split_front: "[0 ..< 129] = 0 # [1 ..< 129]"
      by (simp add: upt_conv_Cons)
    have split_rear: "[0 ..< 129] = [0 ..< 128] @ [128]"
      using upt_Suc_append [of 0 128] by simp
    have front: "orbitPoints solveKepler au s = ?p # List.map_filter ?f [1 ..< 129]"
      unfolding path
      by (subst split_front) (rule map_filter_hd [where f = ?f and x = 0 and y = ?p, OF f0])
    have rear: "orbitPoints solveKepler au s = List.map_filter ?f [0 ..< 128] @ [?p]"
      unfolding path
      by (subst split_rear) (rule map_filter_last [where f = ?f and x = 128 and y = ?p, OF f1])
    have "hd (orbitPoints solveKepler au s) = ?p"
      by (subst front) simp
    moreover have "last (orbitPoints solveKepler au s) = ?p"
      by (subst rear) simp
    moreover have "orbitPoints solveKepler au s \<noteq> []"
      by (subst front) simp
    ultimately show ?thesis
      by simp
  qed
  show ?thesis
    using ot path total closed by blast
qed

theorem elliptical_path_closed_witness:
  "eccentricity props_circular < 1
   \<and> 0 \<le> eccentricity (keplerElementsRef (mount props_circular ()))
   \<and> eccentricity (keplerElementsRef (mount props_circular ())) < 1
   \<and> solveKepler_circular (Finite 0) (eccentricity (keplerElementsRef (mount props_circular ())))
       = Some 0
   \<and> solveKepler_circular (Finite (2 * pi))
        (eccentricity (keplerElementsRef (mount props_circular ()))) = Some (2 * pi)
   \<and> length (orbitPoints solveKepler_circular 100 (mount props_circular ())) = 129
   \<and> orbitPoints solveKepler_circular 100 (mount props_circular ()) ! 64 = Vector3 (- 100) 0 0
   \<and> hd (orbitPoints solveKepler_circular 100 (mount props_circular ())) = Vector3 100 0 0
   \<and> last (orbitPoints solveKepler_circular 100 (mount props_circular ())) = Vector3 100 0 0"
proof -
  let ?s = "mount props_circular ()"
  have created: "eccentricity props_circular < 1"
    by (simp add: props_circular_def)
  have reached: "?s = frames solveKepler_circular three_unit props_circular [] ?s"
    by simp
  have e: "eccentricity (keplerElementsRef ?s) = 0"
    and a: "semiMajorAxis (keplerElementsRef ?s) = 1"
    and rad: "updatedElementsRad ?s = \<lparr>iRad = 0, ORad = 0, wRad = 0, M0Rad = 0\<rparr>"
    by (simp_all add: mount_def initialElements_def props_circular_def elementsRad_def
        deg2rad_def)
  note inst = elliptical_path_closed [OF created reached, where au = 100 and ?E0.0 = 0
      and ?E1.0 = "2 * pi"]
  have all: "\<forall>idx < 129. solveKepler_circular (Finite (2 * pi * real idx / 128))
      (eccentricity (keplerElementsRef ?s)) \<noteq> None"
    by simp
  have len: "length (orbitPoints solveKepler_circular 100 ?s) = 129"
    using inst all by blast
  have "solveKepler_circular (Finite (2 * pi * real (64::nat) / 128))
      (eccentricity (keplerElementsRef ?s)) = Some pi"
    by simp
  moreover have "(64::nat) < 129"
    by simp
  ultimately have "orbitPoints solveKepler_circular 100 ?s ! 64 =
      inertialPosition (updatedElementsRad ?s) 100
        (trueAnomaly Elliptical (eccentricity (keplerElementsRef ?s)) pi)
        (radius Elliptical (semiMajorAxis (keplerElementsRef ?s))
           (eccentricity (keplerElementsRef ?s)) pi)"
    using inst all by blast
  then have mid: "orbitPoints solveKepler_circular 100 ?s ! 64 = Vector3 (- 100) 0 0"
    by (simp add: e a rad trueAnomaly_def radius_def js_sqrt_def atan2_def
        inertialPosition_def)
  have ends: "0 \<le> eccentricity (keplerElementsRef ?s)"
    "eccentricity (keplerElementsRef ?s) < 1"
    "solveKepler_circular (Finite 0) (eccentricity (keplerElementsRef ?s)) = Some 0"
    "(0::real) - eccentricity (keplerElementsRef ?s) * sin 0 = 0"
    "solveKepler_circular (Finite (2 * pi)) (eccentricity (keplerElementsRef ?s)) = Some (2 * pi)"
    "2 * pi - eccentricity (keplerElementsRef ?s) * sin (2 * pi) = 2 * pi"
    by (simp_all add: e)
  have p: "inertialPosition (updatedElementsRad ?s) 100 (Some 0)
      (semiMajorAxis (keplerElementsRef ?s) * (1 - eccentricity (keplerElementsRef ?s))) =
      Vector3 100 0 0"
    by (simp add: e a rad inertialPosition_def)
  have loop: "hd (orbitPoints solveKepler_circular 100 ?s) = Vector3 100 0 0
      \<and> last (orbitPoints solveKepler_circular 100 ?s) = Vector3 100 0 0"
  proof -
    have "orbitPoints solveKepler_circular 100 ?s \<noteq> []
        \<and> hd (orbitPoints solveKepler_circular 100 ?s) =
            inertialPosition (updatedElementsRad ?s) 100 (Some 0)
              (semiMajorAxis (keplerElementsRef ?s) * (1 - eccentricity (keplerElementsRef ?s)))
        \<and> last (orbitPoints solveKepler_circular 100 ?s) =
            hd (orbitPoints solveKepler_circular 100 ?s)"
      using inst [THEN conjunct2, THEN conjunct2, THEN conjunct2] ends by blast
    then show ?thesis
      using p by simp
  qed
  show ?thesis
    using created ends(1,2,3,5) len mid loop by blast
qed

end
